theory Spec2Isabelle
  imports Complex_Main
begin

section \<open>Numbers: doubles with the IEEE special values\<close>

text \<open>
  The camera code computes in C++ \<^verbatim>\<open>double\<close>. A \<open>double\<close> is modelled as a real
  number or one of the three special values of IEEE 754. Arithmetic on finite values is
  exact: rounding, overflow, underflow and the sign of zero are not modelled (a zero
  divisor is read as \<open>+0\<close>). What is modelled is where the special values come from and
  how they spread: a division by zero, the square root of a negative number, a product
  \<open>0 * Inf\<close>, and comparisons with a NaN operand, which are all false.
\<close>

datatype double = Fin real | PInf | NInf | NaN

fun is_finite :: "double \<Rightarrow> bool" where
  "is_finite (Fin a) = True"
| "is_finite PInf = False"
| "is_finite NInf = False"
| "is_finite NaN = False"

fun sign_of :: "double \<Rightarrow> real" where
  "sign_of (Fin a) = sgn a"
| "sign_of PInf = 1"
| "sign_of NInf = - 1"
| "sign_of NaN = 0"

definition inf_of_sign :: "real \<Rightarrow> double" where
  "inf_of_sign s = (if s = 0 then NaN else if 0 < s then PInf else NInf)"

instantiation double :: "{plus, minus, uminus, times, inverse}"
begin

fun plus_double :: "double \<Rightarrow> double \<Rightarrow> double" where
  "plus_double (Fin a) (Fin b) = Fin (a + b)"
| "plus_double NaN y = NaN"
| "plus_double x NaN = NaN"
| "plus_double PInf NInf = NaN"
| "plus_double NInf PInf = NaN"
| "plus_double PInf y = PInf"
| "plus_double x PInf = PInf"
| "plus_double NInf y = NInf"
| "plus_double x NInf = NInf"

fun uminus_double :: "double \<Rightarrow> double" where
  "uminus_double (Fin a) = Fin (- a)"
| "uminus_double PInf = NInf"
| "uminus_double NInf = PInf"
| "uminus_double NaN = NaN"

definition minus_double :: "double \<Rightarrow> double \<Rightarrow> double" where
  "minus_double x y = x + (- y)"

fun times_double :: "double \<Rightarrow> double \<Rightarrow> double" where
  "times_double (Fin a) (Fin b) = Fin (a * b)"
| "times_double NaN y = NaN"
| "times_double x NaN = NaN"
| "times_double x y = inf_of_sign (sign_of x * sign_of y)"

fun divide_double :: "double \<Rightarrow> double \<Rightarrow> double" where
  "divide_double (Fin a) (Fin b) = (if b = 0 then inf_of_sign (sgn a) else Fin (a / b))"
| "divide_double NaN y = NaN"
| "divide_double x NaN = NaN"
| "divide_double (Fin a) y = Fin 0"
| "divide_double x (Fin b) = inf_of_sign (sign_of x * (if b < 0 then - 1 else 1))"
| "divide_double x y = NaN"

fun inverse_double :: "double \<Rightarrow> double" where
  "inverse_double (Fin a) = (if a = 0 then PInf else Fin (1 / a))"
| "inverse_double PInf = Fin 0"
| "inverse_double NInf = Fin 0"
| "inverse_double NaN = NaN"

instance ..

end

text \<open>The comparisons \<^verbatim>\<open><\<close> and \<^verbatim>\<open><=\<close> of C++: false as soon as one operand is a NaN.\<close>

fun dlt :: "double \<Rightarrow> double \<Rightarrow> bool" where
  "dlt (Fin a) (Fin b) = (a < b)"
| "dlt NaN y = False"
| "dlt x NaN = False"
| "dlt x NInf = False"
| "dlt PInf y = False"
| "dlt x y = True"

fun dle :: "double \<Rightarrow> double \<Rightarrow> bool" where
  "dle (Fin a) (Fin b) = (a \<le> b)"
| "dle NaN y = False"
| "dle x NaN = False"
| "dle NInf y = True"
| "dle x PInf = True"
| "dle x y = False"

text \<open>\<^verbatim>\<open>sqrt\<close>, \<^verbatim>\<open>atan\<close> and \<^verbatim>\<open>pow\<close> of the C library. The exponent of every
  \<^verbatim>\<open>pow\<close> call of the source is a literal, so it is a real number here.\<close>

fun dsqrt :: "double \<Rightarrow> double" where
  "dsqrt (Fin a) = (if a < 0 then NaN else Fin (sqrt a))"
| "dsqrt PInf = PInf"
| "dsqrt NInf = NaN"
| "dsqrt NaN = NaN"

fun datan :: "double \<Rightarrow> double" where
  "datan (Fin a) = Fin (arctan a)"
| "datan PInf = Fin (pi / 2)"
| "datan NInf = Fin (- (pi / 2))"
| "datan NaN = NaN"

definition is_int :: "real \<Rightarrow> bool" where
  "is_int y = (y = of_int \<lfloor>y\<rfloor>)"

definition is_odd_int :: "real \<Rightarrow> bool" where
  "is_odd_int y = (is_int y \<and> odd \<lfloor>y\<rfloor>)"

fun dpow :: "double \<Rightarrow> real \<Rightarrow> double" where
  "dpow (Fin a) y =
     (if y = 0 then Fin 1
      else if 0 < a then Fin (a powr y)
      else if a = 0 then (if 0 < y then Fin 0 else PInf)
      else if is_odd_int y then Fin (- ((- a) powr y))
      else if is_int y then Fin ((- a) powr y)
      else NaN)"
| "dpow PInf y = (if y = 0 then Fin 1 else if 0 < y then PInf else Fin 0)"
| "dpow NInf y =
     (if y = 0 then Fin 1
      else if 0 < y then (if is_odd_int y then NInf else PInf)
      else Fin 0)"
| "dpow NaN y = (if y = 0 then Fin 1 else NaN)"

text \<open>\<^verbatim>\<open>static_cast<float>\<close> and back: a pixel coordinate is a \<^verbatim>\<open>float\<close> in the source.
  The rounding to single precision is not modelled, as for the doubles.\<close>

definition static_cast_float :: "double \<Rightarrow> double" where
  "static_cast_float x = x"

definition static_cast_double :: "double \<Rightarrow> double" where
  "static_cast_double x = x"

section \<open>Fixed-size vectors and matrices\<close>

text \<open>The Eigen types of the source, as tuples in row-major order.\<close>

type_synonym Vector2d = "double \<times> double"
type_synonym Vector3d = "double \<times> double \<times> double"
type_synonym Matrix2d = "(double \<times> double) \<times> (double \<times> double)"
type_synonym Matrix23d = "(double \<times> double \<times> double) \<times> (double \<times> double \<times> double)"
type_synonym Matrix32d = "(double \<times> double) \<times> (double \<times> double) \<times> (double \<times> double)"
type_synonym Point2f = "double \<times> double"

fun vec2_add :: "Vector2d \<Rightarrow> Vector2d \<Rightarrow> Vector2d" where
  "vec2_add (a0, a1) (b0, b1) = (a0 + b0, a1 + b1)"

fun vec2_sub :: "Vector2d \<Rightarrow> Vector2d \<Rightarrow> Vector2d" where
  "vec2_sub (a0, a1) (b0, b1) = (a0 - b0, a1 - b1)"

fun vec2_dot :: "Vector2d \<Rightarrow> Vector2d \<Rightarrow> double" where
  "vec2_dot (a0, a1) (b0, b1) = a0 * b0 + a1 * b1"

fun vec2_div :: "Vector2d \<Rightarrow> double \<Rightarrow> Vector2d" where
  "vec2_div (a0, a1) s = (a0 / s, a1 / s)"

definition mat2_identity :: Matrix2d where
  "mat2_identity = ((Fin 1, Fin 0), (Fin 0, Fin 1))"

fun mat2_transpose :: "Matrix2d \<Rightarrow> Matrix2d" where
  "mat2_transpose ((a00, a01), (a10, a11)) = ((a00, a10), (a01, a11))"

fun mat2_mul :: "Matrix2d \<Rightarrow> Matrix2d \<Rightarrow> Matrix2d" where
  "mat2_mul ((a00, a01), (a10, a11)) ((b00, b01), (b10, b11)) =
     ((a00 * b00 + a01 * b10, a00 * b01 + a01 * b11),
      (a10 * b00 + a11 * b10, a10 * b01 + a11 * b11))"

fun mat2_vec :: "Matrix2d \<Rightarrow> Vector2d \<Rightarrow> Vector2d" where
  "mat2_vec ((a00, a01), (a10, a11)) (v0, v1) = (a00 * v0 + a01 * v1, a10 * v0 + a11 * v1)"

text \<open>Eigen inverts a fixed-size 2x2 matrix by the adjugate: \<open>invdet = 1 / det\<close>, and every
  entry of the adjugate is multiplied by it. A singular matrix gives \<open>invdet = Inf\<close>.\<close>

fun mat2_determinant :: "Matrix2d \<Rightarrow> double" where
  "mat2_determinant ((a00, a01), (a10, a11)) = a00 * a11 - a10 * a01"

fun mat2_inverse :: "Matrix2d \<Rightarrow> Matrix2d" where
  "mat2_inverse ((a00, a01), (a10, a11)) =
     (let invdet = Fin 1 / mat2_determinant ((a00, a01), (a10, a11))
      in ((a11 * invdet, (- a01) * invdet), ((- a10) * invdet, a00 * invdet)))"

fun mat2_mul_23 :: "Matrix2d \<Rightarrow> Matrix23d \<Rightarrow> Matrix23d" where
  "mat2_mul_23 ((a00, a01), (a10, a11)) ((b00, b01, b02), (b10, b11, b12)) =
     ((a00 * b00 + a01 * b10, a00 * b01 + a01 * b11, a00 * b02 + a01 * b12),
      (a10 * b00 + a11 * b10, a10 * b01 + a11 * b11, a10 * b02 + a11 * b12))"

fun mat23_mul_32 :: "Matrix23d \<Rightarrow> Matrix32d \<Rightarrow> Matrix2d" where
  "mat23_mul_32 ((a00, a01, a02), (a10, a11, a12)) ((b00, b01), (b10, b11), (b20, b21)) =
     ((a00 * b00 + a01 * b10 + a02 * b20, a00 * b01 + a01 * b11 + a02 * b21),
      (a10 * b00 + a11 * b10 + a12 * b20, a10 * b01 + a11 * b11 + a12 * b21))"

text \<open>\<^verbatim>\<open>normalized()\<close> of Eigen: the vector divided by its norm when the squared norm is
  greater than zero, the vector itself otherwise (also when the squared norm is a NaN).\<close>

fun normalized :: "Vector3d \<Rightarrow> Vector3d" where
  "normalized (v0, v1, v2) =
     (let z = v0 * v0 + v1 * v1 + v2 * v2
      in if dlt (Fin 0) z then (v0 / dsqrt z, v1 / dsqrt z, v2 / dsqrt z) else (v0, v1, v2))"

section \<open>The camera parameter set\<close>

datatype ModelType = REFRAC | RADTAN | EQUIDIST | EQUIREFRAC | DS

record Camera =
  type :: ModelType
  K :: "nat \<Rightarrow> nat \<Rightarrow> double"
  k1 :: double
  k2 :: double
  k3 :: double
  k4 :: double
  k5 :: double
  k6 :: double
  p1 :: double
  p2 :: double
  s1 :: double
  s2 :: double
  s3 :: double
  s4 :: double
  refrac_ind :: double
  valid_radius :: double

text \<open>The fields of \<^verbatim>\<open>class Camera\<close>, under the names of the source without their final
  underscore (\<open>type\<close> is \<^verbatim>\<open>type_\<close>, \<open>K\<close> is \<^verbatim>\<open>K_\<close>, and so on). \<open>K cam i j\<close> is the entry
  \<^verbatim>\<open>K_(i,j)\<close> of the intrinsic matrix.\<close>

text \<open>\<^verbatim>\<open>std::numeric_limits<double>::max()\<close>.\<close>

definition DBL_MAX :: real where
  "DBL_MAX = (2 ^ 53 - 1) * 2 ^ 971"

text \<open>The constructor \<^verbatim>\<open>Camera::Camera()\<close>: a pinhole camera.\<close>

definition Camera_init :: Camera where
  "Camera_init =
     \<lparr> type = RADTAN,
       K = (\<lambda>i j. if i = j then Fin 1 else Fin 0),
       k1 = Fin 0, k2 = Fin 0, k3 = Fin 0, k4 = Fin 0, k5 = Fin 0, k6 = Fin 0,
       p1 = Fin 0, p2 = Fin 0, s1 = Fin 0, s2 = Fin 0, s3 = Fin 0, s4 = Fin 0,
       refrac_ind = Fin 1,
       valid_radius = Fin DBL_MAX \<rparr>"

section \<open>The distortion engine\<close>

text \<open>
  Every distortion function of the source writes its outputs through reference
  parameters and writes all of them; here it returns them. The C++ overloads share one
  name; here the suffix \<open>_J\<close> marks the overload with a Jacobian output and \<open>_n\<close> the
  overload with an explicit \<open>refrac_index\<close> parameter.
\<close>

fun distortRadtan :: "Camera \<Rightarrow> Vector2d \<Rightarrow> Vector2d" where
  "distortRadtan cam (in0, in1) =
     (let x2 = in0 * in0;
          y2 = in1 * in1;
          xy = in0 * in1;
          r2 = x2 + y2;
          kr = Fin 1 + ((k3 cam * r2 + k2 cam) * r2 + k1 cam) * r2
      in (in0 * kr + p1 cam * Fin 2 * xy + p2 cam * (r2 + Fin 2 * x2),
          in1 * kr + p1 cam * (r2 + Fin 2 * y2) + p2 cam * Fin 2 * xy))"

fun distortRadtan_J :: "Camera \<Rightarrow> Vector2d \<Rightarrow> Vector2d \<times> Matrix2d" where
  "distortRadtan_J cam (in0, in1) =
     (let x2 = in0 * in0;
          y2 = in1 * in1;
          xy = in0 * in1;
          r2 = x2 + y2;
          kr = Fin 1 + ((k3 cam * r2 + k2 cam) * r2 + k1 cam) * r2;
          out0 = in0 * kr + p1 cam * Fin 2 * xy + p2 cam * (r2 + Fin 2 * x2);
          out1 = in1 * kr + p1 cam * (r2 + Fin 2 * y2) + p2 cam * Fin 2 * xy;
          J00 = kr + Fin 2 * k1 cam * x2 + Fin 4 * k2 cam * x2 * r2
                  + Fin 6 * k3 cam * x2 * r2 * r2 + Fin 2 * p1 cam * in1 + Fin 6 * p2 cam * in0;
          J01 = Fin 2 * k1 cam * xy + Fin 4 * k2 cam * xy * r2 + Fin 6 * k3 cam * xy * r2 * r2
                  + Fin 2 * p1 cam * in0 + Fin 2 * p2 cam * in1;
          J10 = J01;
          J11 = kr + Fin 2 * k1 cam * y2 + Fin 4 * k2 cam * y2 * r2
                  + Fin 6 * k3 cam * y2 * r2 * r2 + Fin 6 * p1 cam * in1 + Fin 2 * p2 cam * in0
      in ((out0, out1), ((J00, J01), (J10, J11))))"

text \<open>The refractive model. The four overloads differ in where \<open>n\<close> comes from (the stored
  \<open>refrac_ind\<close> or the parameter) and in whether the Jacobian is computed. None of them
  tests the sign of \<open>1 + r2 - n2 * r2\<close> before the square root.\<close>

fun distortRefractive :: "Camera \<Rightarrow> Vector2d \<Rightarrow> Vector2d" where
  "distortRefractive cam (in0, in1) =
     (let x2 = in0 * in0;
          y2 = in1 * in1;
          x_y = in0 * in1;
          r2 = x2 + y2;
          n = refrac_ind cam;
          n2 = n * n;
          m_distort = n / dsqrt (Fin 1 + r2 - (n2 * r2))
      in (in0 * m_distort, in1 * m_distort))"

fun distortRefractive_n :: "Camera \<Rightarrow> Vector2d \<Rightarrow> double \<Rightarrow> Vector2d" where
  "distortRefractive_n cam (in0, in1) refrac_index =
     (let x2 = in0 * in0;
          y2 = in1 * in1;
          x_y = in0 * in1;
          r2 = x2 + y2;
          n = refrac_index;
          n2 = n * n;
          m_distort = n / dsqrt (Fin 1 + r2 - (n2 * r2))
      in (in0 * m_distort, in1 * m_distort))"

fun distortRefractive_J :: "Camera \<Rightarrow> Vector2d \<Rightarrow> Vector2d \<times> Matrix2d" where
  "distortRefractive_J cam (in0, in1) =
     (let x2 = in0 * in0;
          y2 = in1 * in1;
          x_y = in0 * in1;
          r2 = x2 + y2;
          n = refrac_ind cam;
          n2 = n * n;
          m_distort = n / dsqrt (Fin 1 + r2 - (n2 * r2));
          out0 = in0 * m_distort;
          out1 = in1 * m_distort;
          g = Fin 1 + r2 - (n2 * r2);
          J00 = n * dpow g (- 2) * (dsqrt g * x2 * (n2 - Fin 1) + dpow g (3 / 2));
          J01 = n * dpow g (- (3 / 2)) * x_y * (n2 - Fin 1);
          J10 = n * dpow g (- (3 / 2)) * x_y * (n2 - Fin 1);
          J11 = n * dpow g (- 2) * (dsqrt g * y2 * (n2 - Fin 1) + dpow g (3 / 2))
      in ((out0, out1), ((J00, J01), (J10, J11))))"

fun distortRefractive_n_J :: "Camera \<Rightarrow> Vector2d \<Rightarrow> double \<Rightarrow> Vector2d \<times> Matrix2d" where
  "distortRefractive_n_J cam (in0, in1) refrac_index =
     (let x2 = in0 * in0;
          y2 = in1 * in1;
          x_y = in0 * in1;
          r2 = x2 + y2;
          n = refrac_index;
          n2 = n * n;
          m_distort = n / dsqrt (Fin 1 + r2 - (n2 * r2));
          out0 = in0 * m_distort;
          out1 = in1 * m_distort;
          g = Fin 1 + r2 - (n2 * r2);
          J00 = n * dpow g (- 2) * (dsqrt g * x2 * (n2 - Fin 1) + dpow g (3 / 2));
          J01 = n * dpow g (- (3 / 2)) * x_y * (n2 - Fin 1);
          J10 = n * dpow g (- (3 / 2)) * x_y * (n2 - Fin 1);
          J11 = n * dpow g (- 2) * (dsqrt g * y2 * (n2 - Fin 1) + dpow g (3 / 2))
      in ((out0, out1), ((J00, J01), (J10, J11))))"

fun distortEquidist :: "Camera \<Rightarrow> Vector2d \<Rightarrow> Vector2d" where
  "distortEquidist cam (in0, in1) =
     (let x2 = in0 * in0;
          y2 = in1 * in1;
          r = dsqrt (x2 + y2)
      in if dlt r (Fin (1 / 10 ^ 8)) then (in0, in1)
         else
           let th = datan r;
               th2 = th * th;
               th4 = th2 * th2;
               th6 = th2 * th4;
               th8 = th2 * th6;
               thd = th * (Fin 1 + k1 cam * th2 + k2 cam * th4 + k3 cam * th6 + k4 cam * th8);
               s = thd / r
           in (in0 * s, in1 * s))"

fun distortEquidist_J :: "Camera \<Rightarrow> Vector2d \<Rightarrow> Vector2d \<times> Matrix2d" where
  "distortEquidist_J cam (in0, in1) =
     (let x2 = in0 * in0;
          y2 = in1 * in1;
          r = dsqrt (x2 + y2)
      in if dlt r (Fin (1 / 10 ^ 8)) then ((in0, in1), mat2_identity)
         else
           let r_x = Fin 1 / r * in0;
               r_y = Fin 1 / r * in1;
               th = datan r;
               th_r = Fin 1 / (r * r + Fin 1);
               th2 = th * th;
               th4 = th2 * th2;
               th6 = th2 * th4;
               th8 = th2 * th6;
               thd = th * (Fin 1 + k1 cam * th2 + k2 cam * th4 + k3 cam * th6 + k4 cam * th8);
               thd_th = Fin 1 + Fin 3 * k1 cam * th2 + Fin 5 * k2 cam * th4
                          + Fin 7 * k3 cam * th6 + Fin 9 * k4 cam * th8;
               s = thd / r;
               s_r = thd_th * th_r / r - thd / (r * r);
               out0 = in0 * s;
               out1 = in1 * s;
               J00 = s + in0 * s_r * r_x;
               J01 = in0 * s_r * r_y;
               J10 = in1 * s_r * r_x;
               J11 = s + in1 * s_r * r_y
           in ((out0, out1), ((J00, J01), (J10, J11))))"

fun distortDoubleSphere :: "Camera \<Rightarrow> Vector2d \<Rightarrow> Vector2d" where
  "distortDoubleSphere cam (in0, in1) =
     (let x2 = in0 * in0;
          y2 = in1 * in1
      in if dlt (x2 + y2) (Fin (1 / 10 ^ 16)) then (in0, in1)
         else
           let d1 = dsqrt (x2 + y2 + Fin 1);
               d2 = dsqrt (x2 + y2 + (k1 cam * d1 + Fin 1) * (k1 cam * d1 + Fin 1));
               scaling = Fin 1 / (k2 cam * d2 + (Fin 1 - k2 cam) * (k1 cam * d1 + Fin 1))
           in (in0 * scaling, in1 * scaling))"

fun distortDoubleSphere_J :: "Camera \<Rightarrow> Vector2d \<Rightarrow> Vector2d \<times> Matrix2d" where
  "distortDoubleSphere_J cam (in0, in1) =
     (let x2 = in0 * in0;
          y2 = in1 * in1
      in if dlt (x2 + y2) (Fin (1 / 10 ^ 16)) then ((in0, in1), mat2_identity)
         else
           let d1 = dsqrt (x2 + y2 + Fin 1);
               d2 = dsqrt (x2 + y2 + (k1 cam * d1 + Fin 1) * (k1 cam * d1 + Fin 1));
               s = Fin 1 / (k2 cam * d2 + (Fin 1 - k2 cam) * (k1 cam * d1 + Fin 1));
               out0 = in0 * s;
               out1 = in1 * s;
               d1dx = in0 / d1;
               d1dy = in1 / d1;
               d2dx = (in0 + d1dx * k1 cam * (d1 * k1 cam + Fin 1)) / d2;
               d2dy = (in1 + d1dy * k1 cam * (d1 * k1 cam + Fin 1)) / d2;
               J00 = (- in0) * (d2dx * k2 cam - d1dx * k1 cam * (k2 cam - Fin 1)) * s * s + s;
               J01 = (- s) * s * in0 * (d2dy * k2 cam - d1dy * k1 cam * (k2 cam - Fin 1));
               J10 = (- s) * s * in1 * (d2dx * k2 cam - d1dx * k1 cam * (k2 cam - Fin 1));
               J11 = (- in1) * (d2dy * k2 cam - d1dy * k1 cam * (k2 cam - Fin 1)) * s * s + s
           in ((out0, out1), ((J00, J01), (J10, J11))))"

text \<open>The equirefractive model: the refractive stage, then the equidistant stage on its
  output. \<open>distortEquiRefractive_JJ\<close> is the overload that returns the two stage Jacobians
  \<open>(J_equi, J_refrac)\<close> apart; it reads the stored refractive index.\<close>

definition distortEquiRefractive :: "Camera \<Rightarrow> Vector2d \<Rightarrow> Vector2d" where
  "distortEquiRefractive cam inp =
     (let temp = distortRefractive cam inp
      in distortEquidist cam temp)"

definition distortEquiRefractive_J :: "Camera \<Rightarrow> Vector2d \<Rightarrow> Vector2d \<times> Matrix2d" where
  "distortEquiRefractive_J cam inp =
     (let (temp, J_temp_refrac) = distortRefractive_J cam inp;
          (out, J_temp_equi) = distortEquidist_J cam temp
      in (out, mat2_mul J_temp_equi J_temp_refrac))"

definition distortEquiRefractive_JJ :: "Camera \<Rightarrow> Vector2d \<Rightarrow> Vector2d \<times> Matrix2d \<times> Matrix2d" where
  "distortEquiRefractive_JJ cam inp =
     (let (temp, J_refrac) = distortRefractive_J cam inp;
          (out, J_equi) = distortEquidist_J cam temp
      in (out, J_equi, J_refrac))"

definition distortEquiRefractive_n_J ::
    "Camera \<Rightarrow> Vector2d \<Rightarrow> double \<Rightarrow> Vector2d \<times> Matrix2d" where
  "distortEquiRefractive_n_J cam inp refrac_index =
     (let (temp, J_temp_refrac) = distortRefractive_n_J cam inp refrac_index;
          (out, J_temp_equi) = distortEquidist_J cam temp
      in (out, mat2_mul J_temp_equi J_temp_refrac))"

text \<open>The dispatch on \<open>type\<close>. The \<^verbatim>\<open>default:\<close> branch of each \<^verbatim>\<open>switch\<close> is the
  RADTAN branch again; the five enumerators are all the values of \<open>ModelType\<close>. The
  overload \<open>distort_n\<close> also prints a line, which is not modelled.\<close>

fun distort :: "Camera \<Rightarrow> Vector2d \<Rightarrow> Vector2d" where
  "distort cam inp =
     (case type cam of
        RADTAN \<Rightarrow> distortRadtan cam inp
      | REFRAC \<Rightarrow> distortRefractive cam inp
      | EQUIDIST \<Rightarrow> distortEquidist cam inp
      | EQUIREFRAC \<Rightarrow> distortEquiRefractive cam inp
      | DS \<Rightarrow> distortDoubleSphere cam inp)"

fun distort_n :: "Camera \<Rightarrow> Vector2d \<Rightarrow> double \<Rightarrow> Vector2d" where
  "distort_n cam inp refrac_index =
     (case type cam of
        RADTAN \<Rightarrow> distortRadtan cam inp
      | REFRAC \<Rightarrow> distortRefractive_n cam inp refrac_index
      | EQUIDIST \<Rightarrow> distortEquidist cam inp
      | EQUIREFRAC \<Rightarrow> distortEquiRefractive cam inp
      | DS \<Rightarrow> distortDoubleSphere cam inp)"

fun distort_J :: "Camera \<Rightarrow> Vector2d \<Rightarrow> Vector2d \<times> Matrix2d" where
  "distort_J cam inp =
     (case type cam of
        RADTAN \<Rightarrow> distortRadtan_J cam inp
      | REFRAC \<Rightarrow> distortRefractive_J cam inp
      | EQUIDIST \<Rightarrow> distortEquidist_J cam inp
      | EQUIREFRAC \<Rightarrow> distortEquiRefractive_J cam inp
      | DS \<Rightarrow> distortDoubleSphere_J cam inp)"

fun distort_n_J :: "Camera \<Rightarrow> Vector2d \<Rightarrow> double \<Rightarrow> Vector2d \<times> Matrix2d" where
  "distort_n_J cam inp refrac_index =
     (case type cam of
        RADTAN \<Rightarrow> distortRadtan_J cam inp
      | REFRAC \<Rightarrow> distortRefractive_n_J cam inp refrac_index
      | EQUIDIST \<Rightarrow> distortEquidist_J cam inp
      | EQUIREFRAC \<Rightarrow> distortEquiRefractive_n_J cam inp refrac_index
      | DS \<Rightarrow> distortDoubleSphere_J cam inp)"

section \<open>The projection layer\<close>

text \<open>
  \<open>bearingToPixel\<close> returns a \<^verbatim>\<open>bool\<close> and writes the pixel and the Jacobians through
  reference parameters. Here it takes the content those parameters had before the call and
  returns their content after it, so an output that was not written comes back unchanged.
  The suffixes name the overload: \<open>_n\<close> takes \<open>refrac_index\<close>, \<open>_J\<close> returns the 2x3
  Jacobian, \<open>_J_Jdpdn_n\<close> returns in addition the derivative with respect to the
  refractive index.
\<close>

fun bearingToPixel :: "Camera \<Rightarrow> Vector3d \<Rightarrow> Point2f \<Rightarrow> bool \<times> Point2f" where
  "bearingToPixel cam (vec_0, vec_1, vec_2) c =
     (if dle vec_2 (Fin 0) then (False, c)
      else
        let undistorted = (vec_0 / vec_2, vec_1 / vec_2);
            distorted = distort cam undistorted;
            c_x = static_cast_float (K cam 0 0 * fst distorted + K cam 0 2);
            c_y = static_cast_float (K cam 1 1 * snd distorted + K cam 1 2)
        in (True, (c_x, c_y)))"

fun bearingToPixel_n :: "Camera \<Rightarrow> Vector3d \<Rightarrow> Point2f \<Rightarrow> double \<Rightarrow> bool \<times> Point2f" where
  "bearingToPixel_n cam (vec_0, vec_1, vec_2) c refrac_index =
     (if dle vec_2 (Fin 0) then (False, c)
      else
        let undistorted = (vec_0 / vec_2, vec_1 / vec_2);
            distorted = distort_n cam undistorted refrac_index;
            c_x = static_cast_float (K cam 0 0 * fst distorted + K cam 0 2);
            c_y = static_cast_float (K cam 1 1 * snd distorted + K cam 1 2)
        in (True, (c_x, c_y)))"

text \<open>In the overload with \<open>Jdpdn\<close> the local matrix \<open>J_equi\<close> is declared without an
  initial value and is assigned in the EQUIREFRAC branch only, yet the last statement
  multiplies by it for every model. The parameter \<open>J_equi_uninit\<close> is the content the
  local has when it is declared.\<close>

fun bearingToPixel_J_Jdpdn_n ::
    "Camera \<Rightarrow> Vector3d \<Rightarrow> Point2f \<Rightarrow> Matrix23d \<Rightarrow> Vector2d \<Rightarrow> double \<Rightarrow> Matrix2d
      \<Rightarrow> bool \<times> Point2f \<times> Matrix23d \<times> Vector2d" where
  "bearingToPixel_J_Jdpdn_n cam (vec_0, vec_1, vec_2) c J Jdpdn refrac_index J_equi_uninit =
     (if dle vec_2 (Fin 0) then (False, c, J, Jdpdn)
      else
        let undistorted = (vec_0 / vec_2, vec_1 / vec_2);
            J1 = ((Fin 1 / vec_2, Fin 0, (- vec_0) / dpow vec_2 2),
                  (Fin 0, Fin 1 / vec_2, (- vec_1) / dpow vec_2 2));
            (distorted, J2, J_equi) =
              (if type cam = EQUIREFRAC
               then (let (distorted, J_equi, J_refrac) = distortEquiRefractive_JJ cam undistorted
                     in (distorted, mat2_mul J_equi J_refrac, J_equi))
               else (let (distorted, J2) = distort_n_J cam undistorted refrac_index
                     in (distorted, J2, J_equi_uninit)));
            c_x = static_cast_float (K cam 0 0 * fst distorted + K cam 0 2);
            c_y = static_cast_float (K cam 1 1 * snd distorted + K cam 1 2);
            J3 = ((K cam 0 0, Fin 0), (Fin 0, K cam 1 1));
            J_new = mat2_mul_23 (mat2_mul J3 J2) J1;
            n = refrac_index;
            r2 = fst undistorted * fst undistorted + snd undistorted * snd undistorted;
            g = Fin 1 + r2 - (n * n * r2);
            common_term = (dsqrt g * n * n * r2 + dpow g (3 / 2)) / (g * g);
            Jdpdn_0 = fst undistorted * common_term;
            Jdpdn_1 = snd undistorted * common_term;
            K_block = ((K cam 0 0, K cam 0 1), (K cam 1 0, K cam 1 1));
            Jdpdn_new = mat2_vec (mat2_mul K_block J_equi) (Jdpdn_0, Jdpdn_1)
        in (True, (c_x, c_y), J_new, Jdpdn_new))"

fun bearingToPixel_J ::
    "Camera \<Rightarrow> Vector3d \<Rightarrow> Point2f \<Rightarrow> Matrix23d \<Rightarrow> bool \<times> Point2f \<times> Matrix23d" where
  "bearingToPixel_J cam (vec_0, vec_1, vec_2) c J =
     (if dle vec_2 (Fin 0) then (False, c, J)
      else
        let undistorted = (vec_0 / vec_2, vec_1 / vec_2);
            J1 = ((Fin 1 / vec_2, Fin 0, (- vec_0) / dpow vec_2 2),
                  (Fin 0, Fin 1 / vec_2, (- vec_1) / dpow vec_2 2));
            (distorted, J2) = distort_J cam undistorted;
            c_x = static_cast_float (K cam 0 0 * fst distorted + K cam 0 2);
            c_y = static_cast_float (K cam 1 1 * snd distorted + K cam 1 2);
            J3 = ((K cam 0 0, Fin 0), (Fin 0, K cam 1 1));
            J_new = mat2_mul_23 (mat2_mul J3 J2) J1
        in (True, (c_x, c_y), J_new))"

fun bearingToPixel_J_n ::
    "Camera \<Rightarrow> Vector3d \<Rightarrow> Point2f \<Rightarrow> Matrix23d \<Rightarrow> double \<Rightarrow> bool \<times> Point2f \<times> Matrix23d" where
  "bearingToPixel_J_n cam (vec_0, vec_1, vec_2) c J refrac_index =
     (if dle vec_2 (Fin 0) then (False, c, J)
      else
        let undistorted = (vec_0 / vec_2, vec_1 / vec_2);
            J1 = ((Fin 1 / vec_2, Fin 0, (- vec_0) / dpow vec_2 2),
                  (Fin 0, Fin 1 / vec_2, (- vec_1) / dpow vec_2 2));
            (distorted, J2) = distort_n_J cam undistorted refrac_index;
            c_x = static_cast_float (K cam 0 0 * fst distorted + K cam 0 2);
            c_y = static_cast_float (K cam 1 1 * snd distorted + K cam 1 2);
            J3 = ((K cam 0 0, Fin 0), (Fin 0, K cam 1 1));
            J_new = mat2_mul_23 (mat2_mul J3 J2) J1
        in (True, (c_x, c_y), J_new))"

text \<open>
  The bearing manifold point \<^verbatim>\<open>LWF::NormalVectorElement\<close> belongs to another library.
  The projection reads it through \<^verbatim>\<open>getVec()\<close> and \<^verbatim>\<open>getM()\<close> only, so a point is the
  pair of what these two return: the 3-vector and the 3x2 tangent basis.

  The manifold overloads with a Jacobian declare a local 2x3 matrix \<open>J2\<close> without an
  initial value, pass it on and write \<open>J = J2 * J1\<close> whatever the callee returned;
  \<open>J2_uninit\<close> is the content of that local at its declaration.
\<close>

record NormalVectorElement =
  getVec :: Vector3d
  getM :: Matrix32d

definition bearingToPixel_nve :: "Camera \<Rightarrow> NormalVectorElement \<Rightarrow> Point2f \<Rightarrow> bool \<times> Point2f" where
  "bearingToPixel_nve cam n c = bearingToPixel cam (getVec n) c"

definition bearingToPixel_nve_n ::
    "Camera \<Rightarrow> NormalVectorElement \<Rightarrow> Point2f \<Rightarrow> double \<Rightarrow> bool \<times> Point2f" where
  "bearingToPixel_nve_n cam n c refrac_index = bearingToPixel_n cam (getVec n) c refrac_index"

definition bearingToPixel_nve_J ::
    "Camera \<Rightarrow> NormalVectorElement \<Rightarrow> Point2f \<Rightarrow> Matrix23d \<Rightarrow> bool \<times> Point2f \<times> Matrix2d" where
  "bearingToPixel_nve_J cam n c J2_uninit =
     (let J1 = getM n;
          (success, c_new, J2) = bearingToPixel_J cam (getVec n) c J2_uninit
      in (success, c_new, mat23_mul_32 J2 J1))"

definition bearingToPixel_nve_J_n ::
    "Camera \<Rightarrow> NormalVectorElement \<Rightarrow> Point2f \<Rightarrow> double \<Rightarrow> Matrix23d
      \<Rightarrow> bool \<times> Point2f \<times> Matrix2d" where
  "bearingToPixel_nve_J_n cam n c refrac_index J2_uninit =
     (let J1 = getM n;
          (success, c_new, J2) = bearingToPixel_J_n cam (getVec n) c J2_uninit refrac_index
      in (success, c_new, mat23_mul_32 J2 J1))"

definition bearingToPixel_nve_J_Jdpdn_n ::
    "Camera \<Rightarrow> NormalVectorElement \<Rightarrow> Point2f \<Rightarrow> Vector2d \<Rightarrow> double \<Rightarrow> Matrix23d \<Rightarrow> Matrix2d
      \<Rightarrow> bool \<times> Point2f \<times> Matrix2d \<times> Vector2d" where
  "bearingToPixel_nve_J_Jdpdn_n cam n c Jdpdn refrac_index J2_uninit J_equi_uninit =
     (let J1 = getM n;
          (success, c_new, J2, Jdpdn_new) =
             bearingToPixel_J_Jdpdn_n cam (getVec n) c J2_uninit Jdpdn refrac_index J_equi_uninit
      in (success, c_new, mat23_mul_32 J2 J1, Jdpdn_new))"

section \<open>The inversion layer\<close>

definition max_iter :: nat where
  "max_iter = 100"

definition tolerance :: double where
  "tolerance = Fin (1 / 10 ^ 10)"

text \<open>The \<^verbatim>\<open>for\<close> loop of the iterative \<open>pixelToBearing\<close>, from the counter \<open>i\<close> and the
  guess \<open>ybar\<close>. It returns the flag \<open>success\<close> and the guess at the exit; the guess is
  updated before the residual is tested.\<close>

function pixelToBearing_loop :: "Camera \<Rightarrow> Vector2d \<Rightarrow> nat \<Rightarrow> Vector2d \<Rightarrow> bool \<times> Vector2d" where
  "pixelToBearing_loop cam y i ybar =
     (if i < max_iter then
        (let y_tmp_J = distort_J cam ybar;
             y_tmp = fst y_tmp_J;
             J = snd y_tmp_J;
             e = vec2_sub y y_tmp;
             du = mat2_vec (mat2_mul (mat2_inverse (mat2_mul (mat2_transpose J) J))
                                     (mat2_transpose J)) e;
             ybar_new = vec2_add ybar du
         in if dle (vec2_dot e e) tolerance then (True, ybar_new)
            else pixelToBearing_loop cam y (i + 1) ybar_new)
      else (False, ybar))"
  by pat_completeness auto
termination
  by (relation "measure (\<lambda>(cam, y, i, ybar). max_iter - i)") auto

declare pixelToBearing_loop.simps [simp del]

fun pixelToBearing :: "Camera \<Rightarrow> Point2f \<Rightarrow> Vector3d \<Rightarrow> bool \<times> Vector3d" where
  "pixelToBearing cam (c_x, c_y) vec =
     (let y = ((static_cast_double c_x - K cam 0 2) / K cam 0 0,
               (static_cast_double c_y - K cam 1 2) / K cam 1 1);
          (success, ybar) = pixelToBearing_loop cam y 0 y
      in if success then (True, normalized (fst ybar, snd ybar, Fin 1)) else (False, vec))"

text \<open>
  The analytic inverse calls \<^verbatim>\<open>cv::fisheye::undistortPoints\<close> of OpenCV on the pixel, with
  the matrix \<open>(fx, 0, cx; 0, fy, cy; 0, 0, 1)\<close> and the coefficients \<open>(k1, k2, k3, k4)\<close>.
  That function is not part of this code, so it is the parameter \<open>undistortPoints\<close>. The
  rest is a closed form: no loop. The function writes \<open>vec\<close> and returns \<^verbatim>\<open>true\<close> on every
  path, so it takes no previous content of \<open>vec\<close>.
\<close>

fun pixelToBearingAnalytical ::
    "(Point2f \<Rightarrow> (nat \<Rightarrow> nat \<Rightarrow> double) \<Rightarrow> double \<times> double \<times> double \<times> double \<Rightarrow> Point2f)
      \<Rightarrow> Camera \<Rightarrow> Point2f \<Rightarrow> bool \<times> Vector3d" where
  "pixelToBearingAnalytical undistortPoints cam (c_x, c_y) =
     (let y_mat = (static_cast_float (static_cast_double c_x),
                   static_cast_float (static_cast_double c_y));
          K_cv = (\<lambda>i j. if i = 0 \<and> j = 0 then K cam 0 0
                        else if i = 0 \<and> j = 2 then K cam 0 2
                        else if i = 1 \<and> j = 1 then K cam 1 1
                        else if i = 1 \<and> j = 2 then K cam 1 2
                        else if i = 2 \<and> j = 2 then Fin 1
                        else Fin 0);
          D = (k1 cam, k2 cam, k3 cam, k4 cam);
          y = undistortPoints y_mat K_cv D;
          x2 = fst y * fst y;
          y2 = snd y * snd y;
          r2 = x2 + y2;
          n = refrac_ind cam;
          n2 = n * n;
          m_undistort = dsqrt ((n2 * r2) + n2 - r2);
          y_new = vec2_div y m_undistort
      in (True, normalized (fst y_new, snd y_new, Fin 1)))"

text \<open>
  The overload for a manifold point. \<^verbatim>\<open>setFromVector\<close> belongs to the library of the
  manifold type and is the parameter \<open>setFromVector\<close>. The local \<open>vec\<close> has no initial
  value: \<open>vec_uninit\<close> is its content at the declaration. The call of \<open>setFromVector\<close> is
  not guarded by \<open>success\<close>.
\<close>

definition pixelToBearing_nve ::
    "(Vector3d \<Rightarrow> 'n) 
      \<Rightarrow> (Point2f \<Rightarrow> (nat \<Rightarrow> nat \<Rightarrow> double) \<Rightarrow> double \<times> double \<times> double \<times> double \<Rightarrow> Point2f)
      \<Rightarrow> Camera \<Rightarrow> Point2f \<Rightarrow> Vector3d \<Rightarrow> bool \<times> 'n" where
  "pixelToBearing_nve setFromVector undistortPoints cam c vec_uninit =
     (let (success, vec) =
            (if type cam = REFRAC \<or> type cam = EQUIREFRAC
             then pixelToBearingAnalytical undistortPoints cam c
             else pixelToBearing cam c vec_uninit)
      in (success, setFromVector vec))"

section \<open>Notions of the specification\<close>

text \<open>The definitions of this section are not code of the camera: they say what the
  specification talks about, so that its sentences can be compared with the functions
  above.\<close>

text \<open>The pixel of a distorted point: \<open>(fx * x' + cx, fy * y' + cy)\<close>.\<close>

definition pixel_of :: "Camera \<Rightarrow> Vector2d \<Rightarrow> Point2f" where
  "pixel_of cam d = (K cam 0 0 * fst d + K cam 0 2, K cam 1 1 * snd d + K cam 1 2)"

text \<open>The intrinsics-normalized pixel, the seed and the target of the iterative inverse.\<close>

definition pixel_to_plane :: "Camera \<Rightarrow> Point2f \<Rightarrow> Vector2d" where
  "pixel_to_plane cam c = ((fst c - K cam 0 2) / K cam 0 0, (snd c - K cam 1 2) / K cam 1 1)"

text \<open>One Gauss-Newton iteration on the guess \<open>ybar\<close> for the target \<open>y\<close>: the residual
  \<open>e = y - distort ybar\<close>, the step \<open>du = (J\<^sup>T J)\<^sup>-\<^sup>1 J\<^sup>T e\<close>, the updated guess \<open>ybar + du\<close>,
  and the test of the squared norm of the residual against \<open>1e-10\<close>.\<close>

definition gn_residual :: "Camera \<Rightarrow> Vector2d \<Rightarrow> Vector2d \<Rightarrow> Vector2d" where
  "gn_residual cam y ybar = vec2_sub y (fst (distort_J cam ybar))"

definition gn_update :: "Camera \<Rightarrow> Vector2d \<Rightarrow> Vector2d \<Rightarrow> Vector2d" where
  "gn_update cam y ybar =
     (let J = snd (distort_J cam ybar);
          JtJ = mat2_mul (mat2_transpose J) J;
          du = mat2_vec (mat2_mul (mat2_inverse JtJ) (mat2_transpose J)) (gn_residual cam y ybar)
      in vec2_add ybar du)"

definition within_tolerance :: "Camera \<Rightarrow> Vector2d \<Rightarrow> Vector2d \<Rightarrow> bool" where
  "within_tolerance cam y ybar =
     dle (vec2_dot (gn_residual cam y ybar) (gn_residual cam y ybar)) (Fin (1 / 10 ^ 10))"

text \<open>The guess after \<open>k\<close> iterations, from the seed \<open>y\<close>.\<close>

definition gn_iterate :: "Camera \<Rightarrow> Vector2d \<Rightarrow> nat \<Rightarrow> Vector2d" where
  "gn_iterate cam y k = ((gn_update cam y) ^^ k) y"

text \<open>A bearing of unit length: three finite components whose squares sum to one.\<close>

fun unit_length :: "Vector3d \<Rightarrow> bool" where
  "unit_length (Fin a, Fin b, Fin c) = (a * a + b * b + c * c = 1)"
| "unit_length v = False"




text \<open>The closed-form derivative of the refractive map \<open>u * n / sqrt (1 + r2 - n\<^sup>2 * r2)\<close>
  with respect to \<open>n\<close>, at a finite point and index: \<open>u * (n\<^sup>2 * r2 + g) / g powr (3/2)\<close>
  with \<open>g = 1 + r2 - n\<^sup>2 * r2\<close>.\<close>

definition refractive_scale :: "real \<Rightarrow> real \<Rightarrow> real" where
  "refractive_scale r2 n = n / sqrt (1 + r2 - n * n * r2)"

definition refractive_scale_dn :: "real \<Rightarrow> real \<Rightarrow> real" where
  "refractive_scale_dn r2 n =
     (n * n * r2 + (1 + r2 - n * n * r2)) / (1 + r2 - n * n * r2) powr (3 / 2)"

text \<open>The factor \<open>common_term\<close> of the overload with \<open>Jdpdn\<close>, as the source computes it
  from the normalized-plane point and the explicit index.\<close>

definition common_term :: "Vector2d \<Rightarrow> double \<Rightarrow> double" where
  "common_term u n =
     (let r2 = fst u * fst u + snd u * snd u;
          g = Fin 1 + r2 - (n * n * r2)
      in (dsqrt g * n * n * r2 + dpow g (3 / 2)) / (g * g))"

text \<open>The cameras of the examples. Scenario A of the specification: focal lengths 500,
  principal point (320, 240), no distortion.\<close>

definition scenario_A :: Camera where
  "scenario_A =
     Camera_init \<lparr> K := (\<lambda>i j. if i = 0 \<and> j = 0 then Fin 500 else if i = 0 \<and> j = 2 then Fin 320
                              else if i = 1 \<and> j = 1 then Fin 500 else if i = 1 \<and> j = 2 then Fin 240
                              else if i = 2 \<and> j = 2 then Fin 1 else Fin 0) \<rparr>"

text \<open>Scenario C: the refractive model with \<open>n = 1.33\<close>.\<close>

definition scenario_C :: Camera where
  "scenario_C = Camera_init \<lparr> type := REFRAC, refrac_ind := Fin (133 / 100) \<rparr>"


text \<open>A radial-tangential camera with the tangential coefficient \<open>p2 = 2^17\<close>.\<close>

definition radtan_tangential :: Camera where
  "radtan_tangential = Camera_init \<lparr> p2 := Fin 131072 \<rparr>"


text \<open>The constructor's camera with another model tag.\<close>

definition equidist_camera :: Camera where
  "equidist_camera = Camera_init \<lparr> type := EQUIDIST \<rparr>"

definition refractive_camera :: Camera where
  "refractive_camera = Camera_init \<lparr> type := REFRAC \<rparr>"

definition equirefractive_camera :: Camera where
  "equirefractive_camera = Camera_init \<lparr> type := EQUIREFRAC \<rparr>"

section \<open>Facts about the numbers\<close>

lemma minus_Fin [simp]: "Fin a - Fin b = Fin (a - b)"
  by (simp add: minus_double_def)

lemma minus_NaN [simp]: "NaN - y = NaN" "x - NaN = NaN"
  by (cases y; cases x; simp add: minus_double_def)+

lemma dlt_zero_not_dle: "dlt (Fin 0) z \<Longrightarrow> \<not> dle z (Fin 0)"
  by (cases z) auto

lemma square_cases:
  "(\<exists>a. x * x = Fin (a * a) \<and> x = Fin a) \<or> (x * x = PInf \<and> \<not> is_finite x)
     \<or> (x * x = NaN \<and> \<not> is_finite x)"
  by (cases x) (auto simp: inf_of_sign_def)

lemma sum_squares_finite:
  assumes "x * x + y * y = Fin s"
  shows "\<exists>a b. x = Fin a \<and> y = Fin b \<and> s = a * a + b * b"
  using assms square_cases [of x] square_cases [of y] by auto

lemma sum_squares_not_NInf: "x * x + y * y \<noteq> NInf"
  using square_cases [of x] square_cases [of y] by auto

lemma dlt_Fin_right: "dlt x (Fin b) \<Longrightarrow> x = NInf \<or> (\<exists>a. x = Fin a \<and> a < b)"
  by (cases x) auto

lemma dsqrt_not_NInf: "dsqrt x \<noteq> NInf"
  by (cases x) auto

lemma dsqrt_Fin: "dsqrt x = Fin a \<Longrightarrow> \<exists>s. x = Fin s \<and> a = sqrt s"
  by (cases x) (auto split: if_splits)

section \<open>The depth gate of the forward projection\<close>

lemma bearingToPixel_behind:
  assumes "dle vec_2 (Fin 0)"
  shows "bearingToPixel cam (vec_0, vec_1, vec_2) c = (False, c)"
    and "bearingToPixel_n cam (vec_0, vec_1, vec_2) c n = (False, c)"
    and "bearingToPixel_J cam (vec_0, vec_1, vec_2) c J = (False, c, J)"
    and "bearingToPixel_J_n cam (vec_0, vec_1, vec_2) c J n = (False, c, J)"
    and "bearingToPixel_J_Jdpdn_n cam (vec_0, vec_1, vec_2) c J Jdpdn n Ju = (False, c, J, Jdpdn)"
  using assms by simp_all

lemma bearingToPixel_in_front:
  assumes "dlt (Fin 0) vec_2"
  shows "bearingToPixel cam (vec_0, vec_1, vec_2) c
           = (True, pixel_of cam (distort cam (vec_0 / vec_2, vec_1 / vec_2)))"
    and "bearingToPixel_n cam (vec_0, vec_1, vec_2) c n
           = (True, pixel_of cam (distort_n cam (vec_0 / vec_2, vec_1 / vec_2) n))"
  using dlt_zero_not_dle [OF assms]
  by (simp_all add: Let_def pixel_of_def static_cast_float_def del: distort.simps distort_n.simps)

lemma bearingToPixel_J_in_front:
  assumes "dlt (Fin 0) vec_2"
  shows "fst (bearingToPixel_J cam (vec_0, vec_1, vec_2) c J) = True"
    and "fst (snd (bearingToPixel_J cam (vec_0, vec_1, vec_2) c J))
           = pixel_of cam (fst (distort_J cam (vec_0 / vec_2, vec_1 / vec_2)))"
    and "fst (bearingToPixel_J_n cam (vec_0, vec_1, vec_2) c J n) = True"
    and "fst (snd (bearingToPixel_J_n cam (vec_0, vec_1, vec_2) c J n))
           = pixel_of cam (fst (distort_n_J cam (vec_0 / vec_2, vec_1 / vec_2) n))"
  using dlt_zero_not_dle [OF assms]
  by (simp_all add: Let_def pixel_of_def static_cast_float_def split_def
               del: distort_J.simps distort_n_J.simps)

lemma bearingToPixel_J_Jdpdn_in_front:
  assumes "dlt (Fin 0) vec_2"
  shows "fst (bearingToPixel_J_Jdpdn_n cam (vec_0, vec_1, vec_2) c J Jd n Ju) = True"
    and "fst (snd (bearingToPixel_J_Jdpdn_n cam (vec_0, vec_1, vec_2) c J Jd n Ju))
           = pixel_of cam (if type cam = EQUIREFRAC
                           then fst (distortEquiRefractive_JJ cam (vec_0 / vec_2, vec_1 / vec_2))
                           else fst (distort_n_J cam (vec_0 / vec_2, vec_1 / vec_2) n))"
  using dlt_zero_not_dle [OF assms]
  by (simp_all add: Let_def pixel_of_def static_cast_float_def split_def
               del: distort_J.simps distort_n_J.simps)

text \<open>
  C2. A bearing whose third component is at most zero makes every overload of
  \<open>bearingToPixel\<close> return false with the pixel as it was before the call. A bearing whose
  third component is greater than zero makes every overload return true with the pixel
  \<open>(fx * x' + cx, fy * y' + cy)\<close>, where \<open>(x', y')\<close> is what the overload's distortion call
  returns on \<open>(x / z, y / z)\<close>. The cast of the pixel to single precision is exact in this
  model.
\<close>

theorem bearingToPixel_depth_gate:
  "(dle vec_2 (Fin 0) \<longrightarrow>
      bearingToPixel cam (vec_0, vec_1, vec_2) c = (False, c) \<and>
      bearingToPixel_n cam (vec_0, vec_1, vec_2) c n = (False, c) \<and>
      bearingToPixel_J cam (vec_0, vec_1, vec_2) c J = (False, c, J) \<and>
      bearingToPixel_J_n cam (vec_0, vec_1, vec_2) c J n = (False, c, J) \<and>
      bearingToPixel_J_Jdpdn_n cam (vec_0, vec_1, vec_2) c J Jdpdn n Ju = (False, c, J, Jdpdn) \<and>
      bearingToPixel_nve cam \<lparr>getVec = (vec_0, vec_1, vec_2), getM = M\<rparr> c = (False, c) \<and>
      bearingToPixel_nve_n cam \<lparr>getVec = (vec_0, vec_1, vec_2), getM = M\<rparr> c n = (False, c) \<and>
      fst (bearingToPixel_nve_J cam \<lparr>getVec = (vec_0, vec_1, vec_2), getM = M\<rparr> c J) = False \<and>
      fst (snd (bearingToPixel_nve_J cam \<lparr>getVec = (vec_0, vec_1, vec_2), getM = M\<rparr> c J)) = c \<and>
      fst (bearingToPixel_nve_J_n cam \<lparr>getVec = (vec_0, vec_1, vec_2), getM = M\<rparr> c n J) = False \<and>
      fst (snd (bearingToPixel_nve_J_n cam \<lparr>getVec = (vec_0, vec_1, vec_2), getM = M\<rparr> c n J)) = c \<and>
      fst (bearingToPixel_nve_J_Jdpdn_n cam \<lparr>getVec = (vec_0, vec_1, vec_2), getM = M\<rparr>
             c Jdpdn n J Ju) = False \<and>
      fst (snd (bearingToPixel_nve_J_Jdpdn_n cam \<lparr>getVec = (vec_0, vec_1, vec_2), getM = M\<rparr>
             c Jdpdn n J Ju)) = c)
   \<and> (dlt (Fin 0) vec_2 \<longrightarrow>
      bearingToPixel cam (vec_0, vec_1, vec_2) c
        = (True, pixel_of cam (distort cam (vec_0 / vec_2, vec_1 / vec_2))) \<and>
      bearingToPixel_n cam (vec_0, vec_1, vec_2) c n
        = (True, pixel_of cam (distort_n cam (vec_0 / vec_2, vec_1 / vec_2) n)) \<and>
      fst (bearingToPixel_J cam (vec_0, vec_1, vec_2) c J) = True \<and>
      fst (snd (bearingToPixel_J cam (vec_0, vec_1, vec_2) c J))
        = pixel_of cam (fst (distort_J cam (vec_0 / vec_2, vec_1 / vec_2))) \<and>
      fst (bearingToPixel_J_n cam (vec_0, vec_1, vec_2) c J n) = True \<and>
      fst (snd (bearingToPixel_J_n cam (vec_0, vec_1, vec_2) c J n))
        = pixel_of cam (fst (distort_n_J cam (vec_0 / vec_2, vec_1 / vec_2) n)) \<and>
      fst (bearingToPixel_J_Jdpdn_n cam (vec_0, vec_1, vec_2) c J Jdpdn n Ju) = True \<and>
      fst (snd (bearingToPixel_J_Jdpdn_n cam (vec_0, vec_1, vec_2) c J Jdpdn n Ju))
        = pixel_of cam (if type cam = EQUIREFRAC
                        then fst (distortEquiRefractive_JJ cam (vec_0 / vec_2, vec_1 / vec_2))
                        else fst (distort_n_J cam (vec_0 / vec_2, vec_1 / vec_2) n)) \<and>
      bearingToPixel_nve cam \<lparr>getVec = (vec_0, vec_1, vec_2), getM = M\<rparr> c
        = (True, pixel_of cam (distort cam (vec_0 / vec_2, vec_1 / vec_2))) \<and>
      bearingToPixel_nve_n cam \<lparr>getVec = (vec_0, vec_1, vec_2), getM = M\<rparr> c n
        = (True, pixel_of cam (distort_n cam (vec_0 / vec_2, vec_1 / vec_2) n)) \<and>
      fst (bearingToPixel_nve_J cam \<lparr>getVec = (vec_0, vec_1, vec_2), getM = M\<rparr> c J) = True \<and>
      fst (snd (bearingToPixel_nve_J cam \<lparr>getVec = (vec_0, vec_1, vec_2), getM = M\<rparr> c J))
        = pixel_of cam (fst (distort_J cam (vec_0 / vec_2, vec_1 / vec_2))) \<and>
      fst (bearingToPixel_nve_J_n cam \<lparr>getVec = (vec_0, vec_1, vec_2), getM = M\<rparr> c n J) = True \<and>
      fst (snd (bearingToPixel_nve_J_n cam \<lparr>getVec = (vec_0, vec_1, vec_2), getM = M\<rparr> c n J))
        = pixel_of cam (fst (distort_n_J cam (vec_0 / vec_2, vec_1 / vec_2) n)) \<and>
      fst (bearingToPixel_nve_J_Jdpdn_n cam \<lparr>getVec = (vec_0, vec_1, vec_2), getM = M\<rparr>
             c Jdpdn n J Ju) = True \<and>
      fst (snd (bearingToPixel_nve_J_Jdpdn_n cam \<lparr>getVec = (vec_0, vec_1, vec_2), getM = M\<rparr>
             c Jdpdn n J Ju))
        = pixel_of cam (if type cam = EQUIREFRAC
                        then fst (distortEquiRefractive_JJ cam (vec_0 / vec_2, vec_1 / vec_2))
                        else fst (distort_n_J cam (vec_0 / vec_2, vec_1 / vec_2) n)))"
proof (intro conjI impI)
  assume behind: "dle vec_2 (Fin 0)"
  note b = bearingToPixel_behind [OF behind]
  show "bearingToPixel cam (vec_0, vec_1, vec_2) c = (False, c)" by (rule b)
  show "bearingToPixel_n cam (vec_0, vec_1, vec_2) c n = (False, c)" by (rule b)
  show "bearingToPixel_J cam (vec_0, vec_1, vec_2) c J = (False, c, J)" by (rule b)
  show "bearingToPixel_J_n cam (vec_0, vec_1, vec_2) c J n = (False, c, J)" by (rule b)
  show "bearingToPixel_J_Jdpdn_n cam (vec_0, vec_1, vec_2) c J Jdpdn n Ju = (False, c, J, Jdpdn)"
    by (rule b)
  show "bearingToPixel_nve cam \<lparr>getVec = (vec_0, vec_1, vec_2), getM = M\<rparr> c = (False, c)"
    by (simp only: bearingToPixel_nve_def NormalVectorElement.simps b)
  show "bearingToPixel_nve_n cam \<lparr>getVec = (vec_0, vec_1, vec_2), getM = M\<rparr> c n = (False, c)"
    by (simp only: bearingToPixel_nve_n_def NormalVectorElement.simps b)
  show "fst (bearingToPixel_nve_J cam \<lparr>getVec = (vec_0, vec_1, vec_2), getM = M\<rparr> c J) = False"
    by (simp add: bearingToPixel_nve_J_def b del: bearingToPixel_J.simps)
  show "fst (snd (bearingToPixel_nve_J cam \<lparr>getVec = (vec_0, vec_1, vec_2), getM = M\<rparr> c J)) = c"
    by (simp add: bearingToPixel_nve_J_def b del: bearingToPixel_J.simps)
  show "fst (bearingToPixel_nve_J_n cam \<lparr>getVec = (vec_0, vec_1, vec_2), getM = M\<rparr> c n J) = False"
    by (simp add: bearingToPixel_nve_J_n_def b del: bearingToPixel_J_n.simps)
  show "fst (snd (bearingToPixel_nve_J_n cam \<lparr>getVec = (vec_0, vec_1, vec_2), getM = M\<rparr> c n J)) = c"
    by (simp add: bearingToPixel_nve_J_n_def b del: bearingToPixel_J_n.simps)
  show "fst (bearingToPixel_nve_J_Jdpdn_n cam \<lparr>getVec = (vec_0, vec_1, vec_2), getM = M\<rparr>
             c Jdpdn n J Ju) = False"
    by (simp add: bearingToPixel_nve_J_Jdpdn_n_def b del: bearingToPixel_J_Jdpdn_n.simps)
  show "fst (snd (bearingToPixel_nve_J_Jdpdn_n cam \<lparr>getVec = (vec_0, vec_1, vec_2), getM = M\<rparr>
             c Jdpdn n J Ju)) = c"
    by (simp add: bearingToPixel_nve_J_Jdpdn_n_def b del: bearingToPixel_J_Jdpdn_n.simps)
next
  assume front: "dlt (Fin 0) vec_2"
  note f = bearingToPixel_in_front [OF front]
  note fJ = bearingToPixel_J_in_front [OF front]
  note fD = bearingToPixel_J_Jdpdn_in_front [OF front]
  show "bearingToPixel cam (vec_0, vec_1, vec_2) c
        = (True, pixel_of cam (distort cam (vec_0 / vec_2, vec_1 / vec_2)))" by (rule f)
  show "bearingToPixel_n cam (vec_0, vec_1, vec_2) c n
        = (True, pixel_of cam (distort_n cam (vec_0 / vec_2, vec_1 / vec_2) n))" by (rule f)
  show "fst (bearingToPixel_J cam (vec_0, vec_1, vec_2) c J) = True" by (rule fJ)
  show "fst (snd (bearingToPixel_J cam (vec_0, vec_1, vec_2) c J))
        = pixel_of cam (fst (distort_J cam (vec_0 / vec_2, vec_1 / vec_2)))" by (rule fJ)
  show "fst (bearingToPixel_J_n cam (vec_0, vec_1, vec_2) c J n) = True" by (rule fJ)
  show "fst (snd (bearingToPixel_J_n cam (vec_0, vec_1, vec_2) c J n))
        = pixel_of cam (fst (distort_n_J cam (vec_0 / vec_2, vec_1 / vec_2) n))" by (rule fJ)
  show "fst (bearingToPixel_J_Jdpdn_n cam (vec_0, vec_1, vec_2) c J Jdpdn n Ju) = True" by (rule fD)
  show "fst (snd (bearingToPixel_J_Jdpdn_n cam (vec_0, vec_1, vec_2) c J Jdpdn n Ju))
        = pixel_of cam (if type cam = EQUIREFRAC
                        then fst (distortEquiRefractive_JJ cam (vec_0 / vec_2, vec_1 / vec_2))
                        else fst (distort_n_J cam (vec_0 / vec_2, vec_1 / vec_2) n))" by (rule fD)
  show "bearingToPixel_nve cam \<lparr>getVec = (vec_0, vec_1, vec_2), getM = M\<rparr> c
        = (True, pixel_of cam (distort cam (vec_0 / vec_2, vec_1 / vec_2)))"
    by (simp only: bearingToPixel_nve_def NormalVectorElement.simps f)
  show "bearingToPixel_nve_n cam \<lparr>getVec = (vec_0, vec_1, vec_2), getM = M\<rparr> c n
        = (True, pixel_of cam (distort_n cam (vec_0 / vec_2, vec_1 / vec_2) n))"
    by (simp only: bearingToPixel_nve_n_def NormalVectorElement.simps f)
  show "fst (bearingToPixel_nve_J cam \<lparr>getVec = (vec_0, vec_1, vec_2), getM = M\<rparr> c J) = True"
    using fJ(1) [of cam vec_0 vec_1 c J]
    by (simp add: bearingToPixel_nve_J_def Let_def split_def del: bearingToPixel_J.simps)
  show "fst (snd (bearingToPixel_nve_J cam \<lparr>getVec = (vec_0, vec_1, vec_2), getM = M\<rparr> c J))
        = pixel_of cam (fst (distort_J cam (vec_0 / vec_2, vec_1 / vec_2)))"
    using fJ(2) [of cam vec_0 vec_1 c J]
    by (simp add: bearingToPixel_nve_J_def Let_def split_def del: bearingToPixel_J.simps distort_J.simps)
  show "fst (bearingToPixel_nve_J_n cam \<lparr>getVec = (vec_0, vec_1, vec_2), getM = M\<rparr> c n J) = True"
    using fJ(3) [of cam vec_0 vec_1 c J n]
    by (simp add: bearingToPixel_nve_J_n_def Let_def split_def del: bearingToPixel_J_n.simps)
  show "fst (snd (bearingToPixel_nve_J_n cam \<lparr>getVec = (vec_0, vec_1, vec_2), getM = M\<rparr> c n J))
        = pixel_of cam (fst (distort_n_J cam (vec_0 / vec_2, vec_1 / vec_2) n))"
    using fJ(4) [of cam vec_0 vec_1 c J n]
    by (simp add: bearingToPixel_nve_J_n_def Let_def split_def del: bearingToPixel_J_n.simps distort_n_J.simps)
  show "fst (bearingToPixel_nve_J_Jdpdn_n cam \<lparr>getVec = (vec_0, vec_1, vec_2), getM = M\<rparr>
             c Jdpdn n J Ju) = True"
    using fD(1) [of cam vec_0 vec_1 c J Jdpdn n Ju]
    by (simp add: bearingToPixel_nve_J_Jdpdn_n_def Let_def split_def del: bearingToPixel_J_Jdpdn_n.simps)
  show "fst (snd (bearingToPixel_nve_J_Jdpdn_n cam \<lparr>getVec = (vec_0, vec_1, vec_2), getM = M\<rparr>
             c Jdpdn n J Ju))
        = pixel_of cam (if type cam = EQUIREFRAC
                        then fst (distortEquiRefractive_JJ cam (vec_0 / vec_2, vec_1 / vec_2))
                        else fst (distort_n_J cam (vec_0 / vec_2, vec_1 / vec_2) n))"
    using fD(2) [of cam vec_0 vec_1 c J Jdpdn n Ju]
    by (simp add: bearingToPixel_nve_J_Jdpdn_n_def Let_def split_def
             del: bearingToPixel_J_Jdpdn_n.simps distort_n_J.simps)
qed

theorem bearingToPixel_depth_gate_witness:
  "dlt (Fin 0) (Fin 1) \<and>
   bearingToPixel scenario_A (Fin 0, Fin 0, Fin 1) (Fin 7, Fin 7) = (True, (Fin 320, Fin 240)) \<and>
   dle (Fin (- 1)) (Fin 0) \<and>
   bearingToPixel scenario_A (Fin 0, Fin 0, Fin (- 1)) (Fin 7, Fin 7) = (False, (Fin 7, Fin 7))"
  using bearingToPixel_depth_gate [where ?vec_2.0 = "Fin 1" and cam = scenario_A and ?vec_0.0 = "Fin 0"
          and ?vec_1.0 = "Fin 0" and c = "(Fin 7, Fin 7)"]
        bearingToPixel_depth_gate [where ?vec_2.0 = "Fin (- 1)" and cam = scenario_A and ?vec_0.0 = "Fin 0"
          and ?vec_1.0 = "Fin 0" and c = "(Fin 7, Fin 7)"]
  by (simp add: scenario_A_def Camera_init_def pixel_of_def Let_def)

section \<open>Degenerate radius\<close>

lemma equidist_small_finite:
  assumes "dlt (dsqrt (in0 * in0 + in1 * in1)) (Fin b)"
  shows "is_finite in0 \<and> is_finite in1"
proof -
  from dlt_Fin_right [OF assms] dsqrt_not_NInf obtain a where "dsqrt (in0 * in0 + in1 * in1) = Fin a"
    by blast
  then obtain s where "in0 * in0 + in1 * in1 = Fin s" using dsqrt_Fin by blast
  from sum_squares_finite [OF this] show ?thesis by auto
qed

lemma double_sphere_small_finite:
  assumes "dlt (in0 * in0 + in1 * in1) (Fin b)"
  shows "is_finite in0 \<and> is_finite in1"
proof -
  from dlt_Fin_right [OF assms] sum_squares_not_NInf obtain a where "in0 * in0 + in1 * in1 = Fin a"
    by blast
  from sum_squares_finite [OF this] show ?thesis by auto
qed

text \<open>
  C9. When the radius is below the threshold (\<open>r < 1e-8\<close> in \<open>distortEquidist\<close>,
  \<open>r\<^sup>2 < 1e-16\<close> in \<open>distortDoubleSphere\<close>) the output is the input and the Jacobian is the
  identity matrix. The test can only succeed on an input with two finite components, so
  the outputs hold neither a NaN nor an infinity.
\<close>

theorem degenerate_radius_identity:
  "(dlt (dsqrt (in0 * in0 + in1 * in1)) (Fin (1 / 10 ^ 8)) \<longrightarrow>
      distortEquidist cam (in0, in1) = (in0, in1) \<and>
      distortEquidist_J cam (in0, in1) = ((in0, in1), ((Fin 1, Fin 0), (Fin 0, Fin 1))) \<and>
      is_finite in0 \<and> is_finite in1)
   \<and> (dlt (in0 * in0 + in1 * in1) (Fin (1 / 10 ^ 16)) \<longrightarrow>
      distortDoubleSphere cam (in0, in1) = (in0, in1) \<and>
      distortDoubleSphere_J cam (in0, in1) = ((in0, in1), ((Fin 1, Fin 0), (Fin 0, Fin 1))) \<and>
      is_finite in0 \<and> is_finite in1)"
  using equidist_small_finite [of in0 in1 "1 / 10 ^ 8"]
        double_sphere_small_finite [of in0 in1 "1 / 10 ^ 16"]
  by (simp add: Let_def mat2_identity_def)

theorem degenerate_radius_identity_witness:
  "dlt (dsqrt (Fin 0 * Fin 0 + Fin (1 / 10 ^ 9) * Fin (1 / 10 ^ 9))) (Fin (1 / 10 ^ 8)) \<and>
   distortEquidist Camera_init (Fin 0, Fin (1 / 10 ^ 9)) = (Fin 0, Fin (1 / 10 ^ 9)) \<and>
   distortEquidist_J Camera_init (Fin 0, Fin (1 / 10 ^ 9))
     = ((Fin 0, Fin (1 / 10 ^ 9)), ((Fin 1, Fin 0), (Fin 0, Fin 1))) \<and>
   dlt (Fin 0 * Fin 0 + Fin (1 / 10 ^ 9) * Fin (1 / 10 ^ 9)) (Fin (1 / 10 ^ 16)) \<and>
   distortDoubleSphere Camera_init (Fin 0, Fin (1 / 10 ^ 9)) = (Fin 0, Fin (1 / 10 ^ 9)) \<and>
   distortDoubleSphere_J Camera_init (Fin 0, Fin (1 / 10 ^ 9))
     = ((Fin 0, Fin (1 / 10 ^ 9)), ((Fin 1, Fin 0), (Fin 0, Fin 1)))"
proof -
  have "sqrt (1 / (10 ^ 9 * 10 ^ 9)) = 1 / 10 ^ 9"
    by (rule real_sqrt_unique) (simp_all add: power2_eq_square)
  then have r: "dlt (dsqrt (Fin 0 * Fin 0 + Fin (1 / 10 ^ 9) * Fin (1 / 10 ^ 9))) (Fin (1 / 10 ^ 8))"
    by simp
  have r2: "dlt (Fin 0 * Fin 0 + Fin (1 / 10 ^ 9) * Fin (1 / 10 ^ 9)) (Fin (1 / 10 ^ 16))"
    by simp
  show ?thesis
    using r r2 degenerate_radius_identity [of "Fin 0" "Fin (1 / 10 ^ 9)" Camera_init]
    by blast
qed

section \<open>The valid radius is never read\<close>

lemma model_valid_radius:
  "distortRadtan (cam\<lparr>valid_radius := v\<rparr>) inp = distortRadtan cam inp"
  "distortRadtan_J (cam\<lparr>valid_radius := v\<rparr>) inp = distortRadtan_J cam inp"
  "distortRefractive (cam\<lparr>valid_radius := v\<rparr>) inp = distortRefractive cam inp"
  "distortRefractive_n (cam\<lparr>valid_radius := v\<rparr>) inp n = distortRefractive_n cam inp n"
  "distortRefractive_J (cam\<lparr>valid_radius := v\<rparr>) inp = distortRefractive_J cam inp"
  "distortRefractive_n_J (cam\<lparr>valid_radius := v\<rparr>) inp n = distortRefractive_n_J cam inp n"
  "distortEquidist (cam\<lparr>valid_radius := v\<rparr>) inp = distortEquidist cam inp"
  "distortEquidist_J (cam\<lparr>valid_radius := v\<rparr>) inp = distortEquidist_J cam inp"
  "distortDoubleSphere (cam\<lparr>valid_radius := v\<rparr>) inp = distortDoubleSphere cam inp"
  "distortDoubleSphere_J (cam\<lparr>valid_radius := v\<rparr>) inp = distortDoubleSphere_J cam inp"
proof -
  obtain in0 in1 where inp: "inp = (in0, in1)" by (cases inp)
  show "distortRadtan (cam\<lparr>valid_radius := v\<rparr>) inp = distortRadtan cam inp"
    and "distortRadtan_J (cam\<lparr>valid_radius := v\<rparr>) inp = distortRadtan_J cam inp"
    and "distortRefractive (cam\<lparr>valid_radius := v\<rparr>) inp = distortRefractive cam inp"
    and "distortRefractive_n (cam\<lparr>valid_radius := v\<rparr>) inp n = distortRefractive_n cam inp n"
    and "distortRefractive_J (cam\<lparr>valid_radius := v\<rparr>) inp = distortRefractive_J cam inp"
    and "distortRefractive_n_J (cam\<lparr>valid_radius := v\<rparr>) inp n = distortRefractive_n_J cam inp n"
    and "distortEquidist (cam\<lparr>valid_radius := v\<rparr>) inp = distortEquidist cam inp"
    and "distortEquidist_J (cam\<lparr>valid_radius := v\<rparr>) inp = distortEquidist_J cam inp"
    and "distortDoubleSphere (cam\<lparr>valid_radius := v\<rparr>) inp = distortDoubleSphere cam inp"
    and "distortDoubleSphere_J (cam\<lparr>valid_radius := v\<rparr>) inp = distortDoubleSphere_J cam inp"
    unfolding inp by (simp_all add: Let_def)
qed

lemmas model_simps =
  distortRadtan.simps distortRadtan_J.simps distortRefractive.simps distortRefractive_n.simps
  distortRefractive_J.simps distortRefractive_n_J.simps distortEquidist.simps
  distortEquidist_J.simps distortDoubleSphere.simps distortDoubleSphere_J.simps

lemma equirefractive_valid_radius:
  "distortEquiRefractive (cam\<lparr>valid_radius := v\<rparr>) inp = distortEquiRefractive cam inp"
  "distortEquiRefractive_J (cam\<lparr>valid_radius := v\<rparr>) inp = distortEquiRefractive_J cam inp"
  "distortEquiRefractive_JJ (cam\<lparr>valid_radius := v\<rparr>) inp = distortEquiRefractive_JJ cam inp"
  "distortEquiRefractive_n_J (cam\<lparr>valid_radius := v\<rparr>) inp n = distortEquiRefractive_n_J cam inp n"
  by (simp_all only: distortEquiRefractive_def distortEquiRefractive_J_def
        distortEquiRefractive_JJ_def distortEquiRefractive_n_J_def model_valid_radius)

lemma distort_valid_radius:
  "distort (cam\<lparr>valid_radius := v\<rparr>) inp = distort cam inp"
  "distort_n (cam\<lparr>valid_radius := v\<rparr>) inp n = distort_n cam inp n"
  "distort_J (cam\<lparr>valid_radius := v\<rparr>) inp = distort_J cam inp"
  "distort_n_J (cam\<lparr>valid_radius := v\<rparr>) inp n = distort_n_J cam inp n"
  by (cases "type cam"; simp add: model_valid_radius equirefractive_valid_radius del: model_simps)+

lemmas distort_simps = distort.simps distort_n.simps distort_J.simps distort_n_J.simps

lemma bearingToPixel_valid_radius:
  "bearingToPixel (cam\<lparr>valid_radius := v\<rparr>) vec c = bearingToPixel cam vec c"
  "bearingToPixel_n (cam\<lparr>valid_radius := v\<rparr>) vec c n = bearingToPixel_n cam vec c n"
  "bearingToPixel_J (cam\<lparr>valid_radius := v\<rparr>) vec c J = bearingToPixel_J cam vec c J"
  "bearingToPixel_J_n (cam\<lparr>valid_radius := v\<rparr>) vec c J n = bearingToPixel_J_n cam vec c J n"
  "bearingToPixel_J_Jdpdn_n (cam\<lparr>valid_radius := v\<rparr>) vec c J Jd n Ju
     = bearingToPixel_J_Jdpdn_n cam vec c J Jd n Ju"
proof -
  obtain vec_0 vec_1 vec_2 where vec: "vec = (vec_0, vec_1, vec_2)" by (cases vec rule: prod_cases3)
  show "bearingToPixel (cam\<lparr>valid_radius := v\<rparr>) vec c = bearingToPixel cam vec c"
    and "bearingToPixel_n (cam\<lparr>valid_radius := v\<rparr>) vec c n = bearingToPixel_n cam vec c n"
    and "bearingToPixel_J (cam\<lparr>valid_radius := v\<rparr>) vec c J = bearingToPixel_J cam vec c J"
    and "bearingToPixel_J_n (cam\<lparr>valid_radius := v\<rparr>) vec c J n = bearingToPixel_J_n cam vec c J n"
    and "bearingToPixel_J_Jdpdn_n (cam\<lparr>valid_radius := v\<rparr>) vec c J Jd n Ju
           = bearingToPixel_J_Jdpdn_n cam vec c J Jd n Ju"
    unfolding vec
    by (simp_all add: Let_def distort_valid_radius equirefractive_valid_radius del: distort_simps)
qed

lemma gn_valid_radius:
  "within_tolerance (cam\<lparr>valid_radius := v\<rparr>) y u = within_tolerance cam y u"
  "gn_update (cam\<lparr>valid_radius := v\<rparr>) y u = gn_update cam y u"
  by (simp_all add: within_tolerance_def gn_update_def gn_residual_def distort_valid_radius
               del: distort_simps)

section \<open>The loop of the iterative inverse\<close>

lemma loop_unfold:
  "pixelToBearing_loop cam y i ybar =
     (if i < max_iter then
        (if within_tolerance cam y ybar then (True, gn_update cam y ybar)
         else pixelToBearing_loop cam y (i + 1) (gn_update cam y ybar))
      else (False, ybar))"
  by (subst pixelToBearing_loop.simps)
     (simp add: Let_def gn_update_def within_tolerance_def gn_residual_def tolerance_def
           del: distort_J.simps)

lemma funpow_shift: "(f ^^ j) (f u) = (f ^^ Suc j) u"
  by (simp add: funpow_swap1)

lemma loop_success:
  "pixelToBearing_loop cam y i u = (True, w) \<longleftrightarrow>
     (\<exists>k. i + k < max_iter \<and> (\<forall>j<k. \<not> within_tolerance cam y ((gn_update cam y ^^ j) u))
          \<and> within_tolerance cam y ((gn_update cam y ^^ k) u)
          \<and> w = (gn_update cam y ^^ Suc k) u)"
proof (induction "max_iter - i" arbitrary: i u)
  case 0
  then show ?case by (subst loop_unfold) simp
next
  case (Suc n)
  then have lt: "i < max_iter" and n: "n = max_iter - (i + 1)" by simp_all
  let ?W = "within_tolerance cam y" and ?U = "gn_update cam y"
  show ?case
  proof (cases "?W u")
    case True
    have run: "pixelToBearing_loop cam y i u = (True, ?U u)"
      by (subst loop_unfold) (simp add: lt True)
    have "(\<exists>k. i + k < max_iter \<and> (\<forall>j<k. \<not> ?W ((?U ^^ j) u)) \<and> ?W ((?U ^^ k) u)
              \<and> w = (?U ^^ Suc k) u) \<longleftrightarrow> w = ?U u"
    proof
      assume "\<exists>k. i + k < max_iter \<and> (\<forall>j<k. \<not> ?W ((?U ^^ j) u)) \<and> ?W ((?U ^^ k) u)
                \<and> w = (?U ^^ Suc k) u"
      then obtain k where k: "\<forall>j<k. \<not> ?W ((?U ^^ j) u)" "w = (?U ^^ Suc k) u" by blast
      have "k = 0"
      proof (rule ccontr)
        assume "k \<noteq> 0"
        then have "\<not> ?W ((?U ^^ 0) u)" using k(1) by blast
        then show False using True by simp
      qed
      then show "w = ?U u" using k(2) by simp
    next
      assume "w = ?U u"
      then have "i + 0 < max_iter \<and> (\<forall>j<0. \<not> ?W ((?U ^^ j) u)) \<and> ?W ((?U ^^ 0) u)
                   \<and> w = (?U ^^ Suc 0) u"
        using lt True by simp
      then show "\<exists>k. i + k < max_iter \<and> (\<forall>j<k. \<not> ?W ((?U ^^ j) u)) \<and> ?W ((?U ^^ k) u)
                   \<and> w = (?U ^^ Suc k) u" by blast
    qed
    with run show ?thesis by auto
  next
    case False
    have step: "pixelToBearing_loop cam y i u = pixelToBearing_loop cam y (i + 1) (?U u)"
      by (subst loop_unfold) (simp add: lt False)
    have "(\<exists>k. i + 1 + k < max_iter \<and> (\<forall>j<k. \<not> ?W ((?U ^^ j) (?U u)))
              \<and> ?W ((?U ^^ k) (?U u)) \<and> w = (?U ^^ Suc k) (?U u))
       \<longleftrightarrow> (\<exists>k. i + k < max_iter \<and> (\<forall>j<k. \<not> ?W ((?U ^^ j) u)) \<and> ?W ((?U ^^ k) u)
              \<and> w = (?U ^^ Suc k) u)" (is "?L \<longleftrightarrow> ?R")
    proof
      assume ?L
      then obtain k where k: "i + 1 + k < max_iter"
        "\<forall>j<k. \<not> ?W ((?U ^^ Suc j) u)" "?W ((?U ^^ Suc k) u)" "w = (?U ^^ Suc (Suc k)) u"
        unfolding funpow_shift by blast
      have "\<forall>j<Suc k. \<not> ?W ((?U ^^ j) u)"
      proof (intro allI impI)
        fix j assume j: "j < Suc k"
        show "\<not> ?W ((?U ^^ j) u)"
        proof (cases j)
          case 0 then show ?thesis using False by simp
        next
          case (Suc j')
          then show ?thesis using k(2) j by simp
        qed
      qed
      with k have "i + Suc k < max_iter \<and> (\<forall>j<Suc k. \<not> ?W ((?U ^^ j) u))
          \<and> ?W ((?U ^^ Suc k) u) \<and> w = (?U ^^ Suc (Suc k)) u" by simp
      then show ?R by blast
    next
      assume ?R
      then obtain k where k: "i + k < max_iter" "\<forall>j<k. \<not> ?W ((?U ^^ j) u)"
        "?W ((?U ^^ k) u)" "w = (?U ^^ Suc k) u" by blast
      have "k \<noteq> 0" using k(3) False by (cases k) auto
      then obtain k' where k': "k = Suc k'" by (cases k) auto
      have "\<forall>j<k'. \<not> ?W ((?U ^^ Suc j) u)" using k(2) k' by auto
      with k k' have "i + 1 + k' < max_iter \<and> (\<forall>j<k'. \<not> ?W ((?U ^^ j) (?U u)))
          \<and> ?W ((?U ^^ k') (?U u)) \<and> w = (?U ^^ Suc k') (?U u)"
        unfolding funpow_shift by simp
      then show ?L by blast
    qed
    with Suc.hyps(1) [OF n, of "?U u"] step show ?thesis by simp
  qed
qed

lemma loop_failure:
  "fst (pixelToBearing_loop cam y i u) = False \<longleftrightarrow>
     (\<forall>k. i + k < max_iter \<longrightarrow> \<not> within_tolerance cam y ((gn_update cam y ^^ k) u))"
proof (induction "max_iter - i" arbitrary: i u)
  case 0
  then show ?case by (subst loop_unfold) simp
next
  case (Suc n)
  then have lt: "i < max_iter" and n: "n = max_iter - (i + 1)" by simp_all
  let ?W = "within_tolerance cam y" and ?U = "gn_update cam y"
  show ?case
  proof (cases "?W u")
    case True
    have "pixelToBearing_loop cam y i u = (True, ?U u)"
      by (subst loop_unfold) (simp add: lt True)
    moreover have "\<not> (\<forall>k. i + k < max_iter \<longrightarrow> \<not> ?W ((?U ^^ k) u))"
      using lt True by (auto intro: exI [of _ 0])
    ultimately show ?thesis by simp
  next
    case False
    have step: "pixelToBearing_loop cam y i u = pixelToBearing_loop cam y (i + 1) (?U u)"
      by (subst loop_unfold) (simp add: lt False)
    have "(\<forall>k. i + 1 + k < max_iter \<longrightarrow> \<not> ?W ((?U ^^ k) (?U u)))
      \<longleftrightarrow> (\<forall>k. i + k < max_iter \<longrightarrow> \<not> ?W ((?U ^^ k) u))" (is "?L \<longleftrightarrow> ?R")
    proof
      assume L: ?L
      show ?R
      proof (intro allI impI)
        fix k assume ik: "i + k < max_iter"
        show "\<not> ?W ((?U ^^ k) u)"
        proof (cases k)
          case 0 then show ?thesis using False by simp
        next
          case (Suc k')
          then show ?thesis using L ik unfolding funpow_shift by simp
        qed
      qed
    next
      assume R: ?R
      show ?L unfolding funpow_shift using R by (metis add.assoc plus_1_eq_Suc)
    qed
    with Suc.hyps(1) [OF n, of "?U u"] step show ?thesis by simp
  qed
qed

lemma loop_valid_radius:
  "pixelToBearing_loop (cam\<lparr>valid_radius := v\<rparr>) y i u = pixelToBearing_loop cam y i u"
proof (induction "max_iter - i" arbitrary: i u)
  case 0
  then show ?case by (subst loop_unfold, subst (2) loop_unfold) simp
next
  case (Suc n)
  then have n: "n = max_iter - Suc i" by simp
  show ?case
    by (subst loop_unfold, subst (2) loop_unfold)
       (simp add: gn_valid_radius Suc.hyps(1) [OF n])
qed

lemma pixelToBearing_valid_radius:
  "pixelToBearing (cam\<lparr>valid_radius := v\<rparr>) c vec = pixelToBearing cam c vec"
  by (cases c) (simp add: loop_valid_radius)

lemma pixelToBearingAnalytical_valid_radius:
  "pixelToBearingAnalytical und (cam\<lparr>valid_radius := v\<rparr>) c = pixelToBearingAnalytical und cam c"
  by (cases c) (simp add: Let_def cong: if_cong)

text \<open>
  C10. No forward or inverse operation reads the valid-radius limit: replacing the
  \<open>valid_radius\<close> of a camera by any other value changes the result of no overload of
  \<open>distort\<close>, \<open>bearingToPixel\<close> and \<open>pixelToBearing\<close>, on any input.
\<close>

theorem valid_radius_never_read:
  "distort (cam\<lparr>valid_radius := v\<rparr>) inp = distort cam inp \<and>
   distort_n (cam\<lparr>valid_radius := v\<rparr>) inp n = distort_n cam inp n \<and>
   distort_J (cam\<lparr>valid_radius := v\<rparr>) inp = distort_J cam inp \<and>
   distort_n_J (cam\<lparr>valid_radius := v\<rparr>) inp n = distort_n_J cam inp n \<and>
   bearingToPixel (cam\<lparr>valid_radius := v\<rparr>) vec c = bearingToPixel cam vec c \<and>
   bearingToPixel_n (cam\<lparr>valid_radius := v\<rparr>) vec c n = bearingToPixel_n cam vec c n \<and>
   bearingToPixel_J (cam\<lparr>valid_radius := v\<rparr>) vec c J = bearingToPixel_J cam vec c J \<and>
   bearingToPixel_J_n (cam\<lparr>valid_radius := v\<rparr>) vec c J n = bearingToPixel_J_n cam vec c J n \<and>
   bearingToPixel_J_Jdpdn_n (cam\<lparr>valid_radius := v\<rparr>) vec c J Jdpdn n Ju
     = bearingToPixel_J_Jdpdn_n cam vec c J Jdpdn n Ju \<and>
   bearingToPixel_nve (cam\<lparr>valid_radius := v\<rparr>) nve c = bearingToPixel_nve cam nve c \<and>
   bearingToPixel_nve_n (cam\<lparr>valid_radius := v\<rparr>) nve c n = bearingToPixel_nve_n cam nve c n \<and>
   bearingToPixel_nve_J (cam\<lparr>valid_radius := v\<rparr>) nve c J = bearingToPixel_nve_J cam nve c J \<and>
   bearingToPixel_nve_J_n (cam\<lparr>valid_radius := v\<rparr>) nve c n J
     = bearingToPixel_nve_J_n cam nve c n J \<and>
   bearingToPixel_nve_J_Jdpdn_n (cam\<lparr>valid_radius := v\<rparr>) nve c Jdpdn n J Ju
     = bearingToPixel_nve_J_Jdpdn_n cam nve c Jdpdn n J Ju \<and>
   pixelToBearing (cam\<lparr>valid_radius := v\<rparr>) c vec = pixelToBearing cam c vec \<and>
   pixelToBearingAnalytical undistortPoints (cam\<lparr>valid_radius := v\<rparr>) c
     = pixelToBearingAnalytical undistortPoints cam c \<and>
   pixelToBearing_nve setFromVector undistortPoints (cam\<lparr>valid_radius := v\<rparr>) c vec
     = pixelToBearing_nve setFromVector undistortPoints cam c vec"
  by (simp add: distort_valid_radius bearingToPixel_valid_radius pixelToBearing_valid_radius
        pixelToBearingAnalytical_valid_radius bearingToPixel_nve_def bearingToPixel_nve_n_def
        bearingToPixel_nve_J_def bearingToPixel_nve_J_n_def bearingToPixel_nve_J_Jdpdn_n_def
        pixelToBearing_nve_def
      del: distort_simps bearingToPixel.simps bearingToPixel_n.simps bearingToPixel_J.simps
        bearingToPixel_J_n.simps bearingToPixel_J_Jdpdn_n.simps pixelToBearing.simps
        pixelToBearingAnalytical.simps)

theorem valid_radius_never_read_witness:
  "bearingToPixel (scenario_A\<lparr>valid_radius := Fin 0\<rparr>) (Fin 1, Fin 2, Fin 1) (Fin 7, Fin 7)
     = (True, (Fin 820, Fin 1240))"
proof -
  have "bearingToPixel scenario_A (Fin 1, Fin 2, Fin 1) (Fin 7, Fin 7) = (True, (Fin 820, Fin 1240))"
    by (simp add: scenario_A_def Camera_init_def static_cast_float_def)
  moreover have "bearingToPixel (scenario_A\<lparr>valid_radius := Fin 0\<rparr>) (Fin 1, Fin 2, Fin 1) (Fin 7, Fin 7)
      = bearingToPixel scenario_A (Fin 1, Fin 2, Fin 1) (Fin 7, Fin 7)"
    using valid_radius_never_read [where cam = scenario_A and v = "Fin 0"
        and vec = "(Fin 1, Fin 2, Fin 1)" and c = "(Fin 7, Fin 7)"]
    by blast
  ultimately show ?thesis by (simp only:)
qed

lemma pixelToBearing_unfold:
  "pixelToBearing cam c vec =
     (if fst (pixelToBearing_loop cam (pixel_to_plane cam c) 0 (pixel_to_plane cam c))
      then (True, normalized
                    (fst (snd (pixelToBearing_loop cam (pixel_to_plane cam c) 0 (pixel_to_plane cam c))),
                     snd (snd (pixelToBearing_loop cam (pixel_to_plane cam c) 0 (pixel_to_plane cam c))),
                     Fin 1))
      else (False, vec))"
  by (cases c) (simp add: pixel_to_plane_def static_cast_double_def Let_def split_def
                     del: normalized.simps)



text \<open>
  The iterative \<open>pixelToBearing\<close>, characterised. It starts from the intrinsics-normalized
  pixel \<open>y = pixel_to_plane cam c\<close> and runs Gauss-Newton iterations: \<open>gn_iterate cam y k\<close>
  is the guess after \<open>k\<close> of them. It returns true exactly when one of the first 100 guesses
  has a residual with squared norm at most \<open>1e-10\<close> (the source tests \<^verbatim>\<open><=\<close>); it stops
  at the first such guess \<open>k\<close>, and the bearing is \<open>(x, y, 1)\<close> passed to \<open>normalized\<close>, for
  the guess updated once more (the update precedes the test in the loop body). It returns
  false exactly when none of the 100 guesses reaches the tolerance, and then the bearing is
  as before the call.
\<close>

lemma pixelToBearing_iterates:
  "(pixelToBearing cam c vec = (True, v) \<longleftrightarrow>
      (\<exists>k<100.
          (\<forall>j<k. \<not> within_tolerance cam (pixel_to_plane cam c)
                      (gn_iterate cam (pixel_to_plane cam c) j))
        \<and> within_tolerance cam (pixel_to_plane cam c) (gn_iterate cam (pixel_to_plane cam c) k)
        \<and> v = normalized (fst (gn_iterate cam (pixel_to_plane cam c) (Suc k)),
                          snd (gn_iterate cam (pixel_to_plane cam c) (Suc k)), Fin 1)))
   \<and> (pixelToBearing cam c vec = (False, v) \<longleftrightarrow>
      (\<forall>k<100. \<not> within_tolerance cam (pixel_to_plane cam c)
                    (gn_iterate cam (pixel_to_plane cam c) k))
        \<and> v = vec)"
proof (intro conjI)
  let ?y = "pixel_to_plane cam c"
  let ?r = "pixelToBearing_loop cam ?y 0 ?y"
  show "pixelToBearing cam c vec = (True, v) \<longleftrightarrow>
      (\<exists>k<100. (\<forall>j<k. \<not> within_tolerance cam ?y (gn_iterate cam ?y j))
        \<and> within_tolerance cam ?y (gn_iterate cam ?y k)
        \<and> v = normalized (fst (gn_iterate cam ?y (Suc k)), snd (gn_iterate cam ?y (Suc k)), Fin 1))"
    (is "?L \<longleftrightarrow> ?R")
  proof
    assume ?L
    then have s: "fst ?r" and v: "v = normalized (fst (snd ?r), snd (snd ?r), Fin 1)"
      by (auto simp: pixelToBearing_unfold split: if_splits)
    from s have "?r = (True, snd ?r)" by (cases ?r) simp
    then obtain k where "0 + k < max_iter"
       "\<forall>j<k. \<not> within_tolerance cam ?y ((gn_update cam ?y ^^ j) ?y)"
       "within_tolerance cam ?y ((gn_update cam ?y ^^ k) ?y)"
       "snd ?r = (gn_update cam ?y ^^ Suc k) ?y"
      unfolding loop_success by blast
    with v show ?R unfolding gn_iterate_def max_iter_def by auto
  next
    assume ?R
    then obtain k where k: "k < 100"
       "\<forall>j<k. \<not> within_tolerance cam ?y ((gn_update cam ?y ^^ j) ?y)"
       "within_tolerance cam ?y ((gn_update cam ?y ^^ k) ?y)"
       and v: "v = normalized (fst ((gn_update cam ?y ^^ Suc k) ?y),
                               snd ((gn_update cam ?y ^^ Suc k) ?y), Fin 1)"
      unfolding gn_iterate_def by blast
    from k have "?r = (True, (gn_update cam ?y ^^ Suc k) ?y)"
      unfolding loop_success max_iter_def by auto
    with v show ?L by (simp add: pixelToBearing_unfold del: normalized.simps)
  qed
  show "pixelToBearing cam c vec = (False, v) \<longleftrightarrow>
      (\<forall>k<100. \<not> within_tolerance cam ?y (gn_iterate cam ?y k)) \<and> v = vec"
  proof -
    have "pixelToBearing cam c vec = (False, v) \<longleftrightarrow> fst ?r = False \<and> v = vec"
      by (auto simp: pixelToBearing_unfold)
    then show ?thesis
      unfolding loop_failure gn_iterate_def max_iter_def by simp
  qed
qed

section \<open>The refractive model outside its domain\<close>

lemma distortRefractive_outside_domain:
  assumes "1 + (a * a + b * b) - n * n * (a * a + b * b) \<le> 0"
  shows "\<not> is_finite (fst (distortRefractive (cam\<lparr>refrac_ind := Fin n\<rparr>) (Fin a, Fin b)))
       \<and> \<not> is_finite (snd (distortRefractive (cam\<lparr>refrac_ind := Fin n\<rparr>) (Fin a, Fin b)))"
proof (cases "1 + (a * a + b * b) - n * n * (a * a + b * b) < 0")
  case True
  then show ?thesis by (simp add: Let_def)
next
  case False
  with assms have g: "1 + (a * a + b * b) - n * n * (a * a + b * b) = 0" by simp
  have "n \<noteq> 0"
  proof
    assume "n = 0"
    with g have "a * a + b * b = - 1" by simp
    moreover have "0 \<le> a * a + b * b" by simp
    ultimately show False by simp
  qed
  then show ?thesis using g by (simp add: Let_def inf_of_sign_def sgn_real_def)
qed

text \<open>
  C3. The specification asks the refractive distortion to report a failure when
  \<open>1 + r\<^sup>2 - n\<^sup>2 r\<^sup>2 \<le> 0\<close>, and never to produce a value that is not finite. The source
  has no such test. For \<open>n = 1.33\<close> and the point \<open>(2, 0)\<close> the radicand is \<open>-2.0756\<close>:
  both \<open>distortRefractive\<close> overloads return NaN in every output, the dispatching
  \<open>distort\<close> does the same, and \<open>bearingToPixel\<close> returns true with a pixel of two NaN.
\<close>

theorem distortRefractive_domain_violation:
  "distortRefractive scenario_C (Fin 2, Fin 0) = (NaN, NaN) \<and>
   distortRefractive_J scenario_C (Fin 2, Fin 0) = ((NaN, NaN), ((NaN, NaN), (NaN, NaN))) \<and>
   distort scenario_C (Fin 2, Fin 0) = (NaN, NaN) \<and>
   bearingToPixel scenario_C (Fin 2, Fin 0, Fin 1) (Fin 7, Fin 7) = (True, (NaN, NaN))"
  by (simp add: scenario_C_def Camera_init_def static_cast_float_def is_odd_int_def is_int_def)

section \<open>The analytic inverse and the dispatch\<close>

text \<open>
  C5. \<open>pixelToBearingAnalytical\<close> returns true on every pixel, whatever OpenCV's
  \<open>undistortPoints\<close> returns; its definition is a closed form without recursion. The
  overload of \<open>pixelToBearing\<close> for a manifold point takes the analytic path exactly when
  the model is REFRAC or EQUIREFRAC, and the iterative path for the other models.
\<close>

theorem pixelToBearingAnalytical_total_and_dispatch:
  "fst (pixelToBearingAnalytical undistortPoints cam c) = True \<and>
   pixelToBearing_nve setFromVector undistortPoints cam c vec_uninit =
     (if type cam = REFRAC \<or> type cam = EQUIREFRAC
      then (True, setFromVector (snd (pixelToBearingAnalytical undistortPoints cam c)))
      else (fst (pixelToBearing cam c vec_uninit),
            setFromVector (snd (pixelToBearing cam c vec_uninit))))"
proof -
  have t: "fst (pixelToBearingAnalytical undistortPoints cam c) = True"
    by (cases c) (simp add: Let_def)
  then show ?thesis
    by (simp add: pixelToBearing_nve_def split_def Let_def
             del: pixelToBearingAnalytical.simps pixelToBearing.simps)
qed

theorem pixelToBearingAnalytical_total_and_dispatch_witness:
  "pixelToBearing_nve (\<lambda>v. v) (\<lambda>p M D. p) refractive_camera (Fin 0, Fin 0) (Fin 7, Fin 7, Fin 7)
     = (True, (Fin 0, Fin 0, Fin 1))"
proof -
  have "pixelToBearingAnalytical (\<lambda>p M D. p) refractive_camera (Fin 0, Fin 0)
          = (True, (Fin 0, Fin 0, Fin 1))"
    by (simp add: refractive_camera_def Camera_init_def static_cast_float_def
          static_cast_double_def Let_def)
  with pixelToBearingAnalytical_total_and_dispatch [where cam = refractive_camera
         and undistortPoints = "\<lambda>p M D. p" and setFromVector = "\<lambda>v. v" and c = "(Fin 0, Fin 0)"
         and vec_uninit = "(Fin 7, Fin 7, Fin 7)"]
  show ?thesis by (simp add: refractive_camera_def)
qed

section \<open>The explicit refractive index\<close>

text \<open>Where the explicit index is honoured: the refractive model in every overload, and the
  equirefractive model in the overload of \<open>distort\<close> with a Jacobian.\<close>

lemma explicit_index_honoured:
  "type cam = REFRAC \<Longrightarrow> distort_n cam inp n = distort (cam\<lparr>refrac_ind := n\<rparr>) inp"
  "type cam = REFRAC \<or> type cam = EQUIREFRAC
     \<Longrightarrow> distort_n_J cam inp n = distort_J (cam\<lparr>refrac_ind := n\<rparr>) inp"
proof -
  obtain in0 in1 where inp: "inp = (in0, in1)" by (cases inp)
  have e: "\<And>u. distortEquidist_J (cam\<lparr>refrac_ind := n\<rparr>) u = distortEquidist_J cam u"
  proof -
    fix u :: Vector2d
    obtain u0 u1 where "u = (u0, u1)" by (cases u)
    then show "distortEquidist_J (cam\<lparr>refrac_ind := n\<rparr>) u = distortEquidist_J cam u"
      by (simp add: Let_def)
  qed
  show "type cam = REFRAC \<Longrightarrow> distort_n cam inp n = distort (cam\<lparr>refrac_ind := n\<rparr>) inp"
    unfolding inp by simp
  show "type cam = REFRAC \<or> type cam = EQUIREFRAC
     \<Longrightarrow> distort_n_J cam inp n = distort_J (cam\<lparr>refrac_ind := n\<rparr>) inp"
    unfolding inp
    by (auto simp: distortEquiRefractive_n_J_def distortEquiRefractive_J_def e
             simp del: distortEquidist_J.simps)
qed

lemma sqrt_quarter: "sqrt (1 / 4) = 1 / 2"
  by (rule real_sqrt_unique) (simp_all add: power2_eq_square)

text \<open>
  C8. The specification lets the explicit refractive index replace the stored one in every
  overload that takes it. For the equirefractive model the overload of \<open>distort\<close> without a
  Jacobian calls \<open>distortEquiRefractive\<close> without the index, and so does
  \<open>bearingToPixel\<close> through it: with the stored index 1 and the explicit index 2 the point
  \<open>(1/2, 0)\<close> goes to \<open>(arctan (1/2), 0)\<close>, the result for the index 1, where a camera
  that stores the index 2 gives \<open>(arctan 2, 0)\<close>.
\<close>

theorem distort_n_ignores_refrac_index:
  "distort_n equirefractive_camera (Fin (1 / 2), Fin 0) (Fin 2) = (Fin (arctan (1 / 2)), Fin 0) \<and>
   distort (equirefractive_camera\<lparr>refrac_ind := Fin 2\<rparr>) (Fin (1 / 2), Fin 0)
     = (Fin (arctan 2), Fin 0) \<and>
   distort_n equirefractive_camera (Fin (1 / 2), Fin 0) (Fin 2)
     \<noteq> distort (equirefractive_camera\<lparr>refrac_ind := Fin 2\<rparr>) (Fin (1 / 2), Fin 0) \<and>
   bearingToPixel_n equirefractive_camera (Fin 1, Fin 0, Fin 2) (Fin 7, Fin 7) (Fin 2)
     = (True, (Fin (arctan (1 / 2)), Fin 0)) \<and>
   bearingToPixel (equirefractive_camera\<lparr>refrac_ind := Fin 2\<rparr>) (Fin 1, Fin 0, Fin 2) (Fin 7, Fin 7)
     = (True, (Fin (arctan 2), Fin 0))"
proof -
  have a: "distort_n equirefractive_camera (Fin (1 / 2), Fin 0) (Fin 2)
             = (Fin (arctan (1 / 2)), Fin 0)"
    by (simp add: equirefractive_camera_def Camera_init_def distortEquiRefractive_def Let_def
          sqrt_quarter)
  have b: "distort (equirefractive_camera\<lparr>refrac_ind := Fin 2\<rparr>) (Fin (1 / 2), Fin 0)
             = (Fin (arctan 2), Fin 0)"
    by (simp add: equirefractive_camera_def Camera_init_def distortEquiRefractive_def Let_def
          sqrt_quarter)
  have ne: "arctan (1 / 2) \<noteq> arctan (2::real)"
    by (simp add: arctan_eq_iff)
  have c: "bearingToPixel_n equirefractive_camera (Fin 1, Fin 0, Fin 2) (Fin 7, Fin 7) (Fin 2)
             = (True, (Fin (arctan (1 / 2)), Fin 0))"
    using a by (simp add: Let_def static_cast_float_def equirefractive_camera_def Camera_init_def
                     del: distort_n.simps)
  have d: "bearingToPixel (equirefractive_camera\<lparr>refrac_ind := Fin 2\<rparr>) (Fin 1, Fin 0, Fin 2)
             (Fin 7, Fin 7) = (True, (Fin (arctan 2), Fin 0))"
    using b by (simp add: Let_def static_cast_float_def equirefractive_camera_def Camera_init_def
                     del: distort.simps)
  show ?thesis using a b c d ne by (simp only: prod.inject double.inject simp_thms)
qed

section \<open>The derivative with respect to the refractive index\<close>

lemma powr_three_halves: "0 < g \<Longrightarrow> g powr (3 / 2) = g * sqrt (g::real)"
proof -
  assume g: "0 < g"
  have "g powr (3 / 2) = g powr (1 + 1 / 2)" by simp
  also have "\<dots> = g powr 1 * g powr (1 / 2)" by (rule powr_add)
  also have "\<dots> = g * sqrt g" using g by (simp add: powr_half_sqrt)
  finally show ?thesis .
qed

text \<open>The closed form is the derivative of the refractive scale inside the domain.\<close>

lemma refractive_scale_dn_algebra:
  assumes "0 < (g::real)"
  shows "(1 * sqrt g - n * ((- (2 * n * r2)) * (inverse (sqrt g) / 2))) / (sqrt g * sqrt g)
           = (n * n * r2 + g) / (g * sqrt g)"
    and "(sqrt g * n * n * r2 + g * sqrt g) / (g * g) = (n * n * r2 + g) / (g * sqrt g)"
proof -
  define s where "s = sqrt g"
  have s: "s \<noteq> 0" and g: "g = s * s" using assms by (simp_all add: s_def)
  show "(1 * sqrt g - n * ((- (2 * n * r2)) * (inverse (sqrt g) / 2))) / (sqrt g * sqrt g)
           = (n * n * r2 + g) / (g * sqrt g)"
    unfolding s_def [symmetric] unfolding g using s by (simp add: field_simps)
  show "(sqrt g * n * n * r2 + g * sqrt g) / (g * g) = (n * n * r2 + g) / (g * sqrt g)"
    unfolding s_def [symmetric] unfolding g using s by (simp add: field_simps)
qed

lemma refractive_scale_derivative:
  assumes g: "0 < 1 + r2 - n * n * r2"
  shows "((\<lambda>m. refractive_scale r2 m) has_real_derivative refractive_scale_dn r2 n) (at n)"
proof -
  let ?g = "1 + r2 - n * n * r2"
  have h: "((\<lambda>m. 1 + r2 - m * m * r2) has_real_derivative - (2 * n * r2)) (at n)"
    by (auto intro!: derivative_eq_intros)
  have "((\<lambda>m. sqrt (1 + r2 - m * m * r2)) has_real_derivative
           (- (2 * n * r2)) * (inverse (sqrt ?g) / 2)) (at n)"
    using DERIV_chain2 [OF DERIV_real_sqrt [OF g] h] by (simp add: mult.commute)
  then have "((\<lambda>m. m / sqrt (1 + r2 - m * m * r2)) has_real_derivative
           (1 * sqrt ?g - n * ((- (2 * n * r2)) * (inverse (sqrt ?g) / 2))) / (sqrt ?g * sqrt ?g))
           (at n)"
    using g by (intro DERIV_divide DERIV_ident) simp_all
  then show ?thesis
    unfolding refractive_scale_def refractive_scale_dn_def powr_three_halves [OF g]
      refractive_scale_dn_algebra(1) [OF g] .
qed

text \<open>What the overload with \<open>Jdpdn\<close> returns in it: the intrinsic block times \<open>J_equi\<close> times
  the point scaled by \<open>common_term\<close>, where \<open>J_equi\<close> is the equidistant-stage Jacobian for
  the equirefractive model and the content of the uninitialised local for every other
  model.\<close>

lemma Jdpdn_value:
  assumes "dlt (Fin 0) vec_2"
  shows "snd (snd (snd (bearingToPixel_J_Jdpdn_n cam (vec_0, vec_1, vec_2) c J Jdpdn n J_equi_uninit)))
     = mat2_vec
         (mat2_mul ((K cam 0 0, K cam 0 1), (K cam 1 0, K cam 1 1))
            (if type cam = EQUIREFRAC
             then fst (snd (distortEquiRefractive_JJ cam (vec_0 / vec_2, vec_1 / vec_2)))
             else J_equi_uninit))
         (vec_0 / vec_2 * common_term (vec_0 / vec_2, vec_1 / vec_2) n,
          vec_1 / vec_2 * common_term (vec_0 / vec_2, vec_1 / vec_2) n)"
  using dlt_zero_not_dle [OF assms]
  by (simp add: Let_def split_def common_term_def del: distort_simps mat2_vec.simps mat2_mul.simps)

lemma common_term_closed_form:
  assumes g: "0 < 1 + (a * a + b * b) - n * n * (a * a + b * b)"
  shows "common_term (Fin a, Fin b) (Fin n) = Fin (refractive_scale_dn (a * a + b * b) n)"
proof -
  have "common_term (Fin a, Fin b) (Fin n)
          = Fin ((sqrt (1 + (a * a + b * b) - n * n * (a * a + b * b)) * n * n * (a * a + b * b)
                    + (1 + (a * a + b * b) - n * n * (a * a + b * b))
                        * sqrt (1 + (a * a + b * b) - n * n * (a * a + b * b)))
                 / ((1 + (a * a + b * b) - n * n * (a * a + b * b))
                      * (1 + (a * a + b * b) - n * n * (a * a + b * b))))"
    using g by (simp add: common_term_def Let_def powr_three_halves)
  then show ?thesis
    unfolding refractive_scale_dn_algebra(2) [OF g] refractive_scale_dn_def
      powr_three_halves [OF g] .
qed

text \<open>
  C7. The specification has \<open>Jdpdn\<close> multiplied by the equidistant-stage Jacobian for the
  equirefractive model only. The source multiplies by the local \<open>J_equi\<close> for every model,
  and assigns that local for the equirefractive model only. For the refractive model, the
  bearing \<open>(1, 0, 2)\<close> and the index 1, identity intrinsics, the closed form gives
  \<open>(5/8, 0)\<close>; the function returns \<open>(0, 0)\<close> when the local holds zeros, NaN when
  it holds NaN, and \<open>(5/8, 0)\<close> only when it happens to hold the identity matrix.
\<close>

theorem Jdpdn_uses_uninitialised_J_equi:
  "snd (snd (snd (bearingToPixel_J_Jdpdn_n refractive_camera (Fin 1, Fin 0, Fin 2) c J Jdpdn (Fin 1)
      ((Fin 0, Fin 0), (Fin 0, Fin 0))))) = (Fin 0, Fin 0) \<and>
   snd (snd (snd (bearingToPixel_J_Jdpdn_n refractive_camera (Fin 1, Fin 0, Fin 2) c J Jdpdn (Fin 1)
      ((NaN, NaN), (NaN, NaN))))) = (NaN, NaN) \<and>
   snd (snd (snd (bearingToPixel_J_Jdpdn_n refractive_camera (Fin 1, Fin 0, Fin 2) c J Jdpdn (Fin 1)
      ((Fin 1, Fin 0), (Fin 0, Fin 1))))) = (Fin (5 / 8), Fin 0) \<and>
   (Fin (1 / 2 * refractive_scale_dn (1 / 4) 1), Fin (0 * refractive_scale_dn (1 / 4) 1))
     = (Fin (5 / 8), Fin 0)"
proof -
  have ct: "common_term (Fin (1 / 2), Fin 0) (Fin 1) = Fin (5 / 4)"
    by (simp add: common_term_def Let_def)
  have front: "dlt (Fin 0) (Fin 2)" by simp
  have t: "type refractive_camera \<noteq> EQUIREFRAC"
    and k: "K refractive_camera = (\<lambda>i j. if i = j then Fin 1 else Fin 0)"
    by (simp_all add: refractive_camera_def Camera_init_def)
  have dn: "refractive_scale_dn (1 / 4) 1 = 5 / 4"
    by (simp add: refractive_scale_dn_def)
  show ?thesis
    unfolding Jdpdn_value [OF front] dn
    by (simp add: t k ct)
qed

section \<open>A pixel the equidistant model cannot reach\<close>

lemma equidist_first_coordinate:
  "\<exists>x y. fst (distortEquidist_J equidist_camera (Fin a, Fin b)) = (Fin x, Fin y) \<and> x < 2"
proof -
  define r where "r = sqrt (a * a + b * b)"
  have r0: "0 \<le> r" and ar: "\<bar>a\<bar> \<le> r"
    using real_sqrt_sum_squares_ge1 [of "\<bar>a\<bar>" b] by (simp_all add: r_def power2_eq_square)
  have nn: "\<not> a * a + b * b < 0" by (simp add: not_less)
  show ?thesis
  proof (cases "r < 1 / 10 ^ 8")
    case True
    then have "fst (distortEquidist_J equidist_camera (Fin a, Fin b)) = (Fin a, Fin b)"
      using nn by (simp add: Let_def r_def)
    moreover have "a < 2" using ar True by simp
    ultimately show ?thesis by blast
  next
    case False
    then have rpos: "0 < r" by simp
    have "fst (distortEquidist_J equidist_camera (Fin a, Fin b))
            = (Fin (a * (arctan r / r)), Fin (b * (arctan r / r)))"
      using False nn rpos
      by (simp add: Let_def r_def [symmetric] equidist_camera_def Camera_init_def)
    moreover have "a * (arctan r / r) < 2"
    proof -
      have "a * (arctan r / r) \<le> \<bar>a\<bar> * (arctan r / r)"
        using rpos by (intro mult_right_mono) (simp_all add: zero_le_arctan_iff)
      also have "\<dots> \<le> r * (arctan r / r)"
        using rpos ar by (intro mult_right_mono) (simp_all add: zero_le_arctan_iff)
      also have "\<dots> = arctan r" using rpos by simp
      also have "\<dots> < pi / 2" by (rule arctan_ubound)
      also have "\<dots> < 2" using pi_less_4 by simp
      finally show ?thesis .
    qed
    ultimately show ?thesis by blast
  qed
qed

lemma equidist_unreachable_finite:
  "\<not> within_tolerance equidist_camera (Fin 3, Fin 0) (Fin a, Fin b)"
proof -
  obtain x y where out: "fst (distortEquidist_J equidist_camera (Fin a, Fin b)) = (Fin x, Fin y)"
    and x: "x < 2"
    using equidist_first_coordinate by blast
  have t: "type equidist_camera = EQUIDIST" by (simp add: equidist_camera_def)
  have "1 < (3 - x) * (3 - x)" using x by (smt (verit) mult_le_cancel_left1)
  moreover have "0 \<le> y * y" by simp
  moreover have "(1::real) / 10 ^ 10 < 1" by simp
  ultimately have "\<not> (3 - x) * (3 - x) + y * y \<le> 1 / 10 ^ 10" by linarith
  then show ?thesis
    by (simp add: within_tolerance_def gn_residual_def t out del: distortEquidist_J.simps)
qed

lemma equidist_unreachable: "\<not> within_tolerance equidist_camera (Fin 3, Fin 0) u"
proof -
  obtain u0 u1 where u: "u = (u0, u1)" by (cases u)
  have t: "type equidist_camera = EQUIDIST" by (simp add: equidist_camera_def)
  have k: "k1 equidist_camera = Fin 0" "k2 equidist_camera = Fin 0"
          "k3 equidist_camera = Fin 0" "k4 equidist_camera = Fin 0"
    by (simp_all add: equidist_camera_def Camera_init_def)
  show ?thesis
    unfolding u
    by (cases u0; cases u1;
        simp add: equidist_unreachable_finite;
        simp add: within_tolerance_def gn_residual_def t k Let_def inf_of_sign_def)
qed

lemma pixelToBearing_equidist_fails:
  "pixelToBearing equidist_camera (Fin 3, Fin 0) vec = (False, vec)"
proof -
  have y: "pixel_to_plane equidist_camera (Fin 3, Fin 0) = (Fin 3, Fin 0)"
    by (simp add: pixel_to_plane_def equidist_camera_def Camera_init_def)
  have "fst (pixelToBearing_loop equidist_camera (Fin 3, Fin 0) 0 (Fin 3, Fin 0)) = False"
    unfolding loop_failure by (simp add: equidist_unreachable)
  then show ?thesis by (simp add: pixelToBearing_unfold y del: pixelToBearing.simps)
qed

text \<open>A pixel on which the iterative inverse succeeds with a Jacobian that is singular at
  the accepted guess: the last update divides by a zero determinant.\<close>

lemma pixelToBearing_singular_step:
  "pixelToBearing radtan_tangential (Fin (- (1 / 262144)), Fin 0) vec = (True, (NaN, NaN, Fin 1))"
proof -
  let ?y = "(Fin (- (1 / 262144)), Fin 0)"
  have y: "pixel_to_plane radtan_tangential ?y = ?y"
    by (simp add: pixel_to_plane_def radtan_tangential_def Camera_init_def)
  have w: "within_tolerance radtan_tangential ?y ?y"
    by (simp add: within_tolerance_def gn_residual_def radtan_tangential_def Camera_init_def Let_def)
  have u: "gn_update radtan_tangential ?y ?y = (NaN, NaN)"
    by (simp add: gn_update_def gn_residual_def radtan_tangential_def Camera_init_def Let_def
          inf_of_sign_def)
  have "pixelToBearing_loop radtan_tangential ?y 0 ?y = (True, (NaN, NaN))"
    by (subst loop_unfold) (simp add: w u max_iter_def)
  then show ?thesis by (simp add: pixelToBearing_unfold y del: pixelToBearing.simps)
qed

text \<open>
  C4. The specification describes the iterative inverse as seeded with the
  intrinsics-normalized pixel, running at most 100 Gauss-Newton iterations, stopping once
  the squared norm of the residual is within \<open>1e-10\<close>, failing exactly when the budget is
  exhausted, and returning on success \<open>(x, y, 1)\<close> normalized to unit length. The loop is as
  described (lemma \<open>pixelToBearing_iterates\<close>); the last part fails. The loop body applies
  the update \<open>ybar += du\<close> before it tests the residual, so the guess that is returned is one
  step past the accepted one, and that step inverts \<open>J\<^sup>T J\<close> without a test of its
  determinant. For the radial-tangential model with \<open>p2 = 2^17\<close> and the pixel
  \<open>(-2^-18, 0)\<close>: the seed is the pixel itself, its residual \<open>(-3 * 2^-19, 0)\<close> is within the
  tolerance, the Jacobian at the seed is \<open>((-2, 0), (0, 0))\<close>, the update is \<open>(NaN, NaN)\<close>, and
  the call returns true with the bearing \<open>(NaN, NaN, 1)\<close>, which \<open>normalized\<close> leaves as it is
  and which is not of unit length.
\<close>

theorem pixelToBearing_success_not_unit_length:
  "pixel_to_plane radtan_tangential (Fin (- (1 / 262144)), Fin 0) = (Fin (- (1 / 262144)), Fin 0) \<and>
   gn_residual radtan_tangential (Fin (- (1 / 262144)), Fin 0) (Fin (- (1 / 262144)), Fin 0)
     = (Fin (- (3 / 524288)), Fin 0) \<and>
   within_tolerance radtan_tangential (Fin (- (1 / 262144)), Fin 0) (Fin (- (1 / 262144)), Fin 0) \<and>
   snd (distort_J radtan_tangential (Fin (- (1 / 262144)), Fin 0))
     = ((Fin (- 2), Fin 0), (Fin 0, Fin 0)) \<and>
   gn_update radtan_tangential (Fin (- (1 / 262144)), Fin 0) (Fin (- (1 / 262144)), Fin 0)
     = (NaN, NaN) \<and>
   normalized (NaN, NaN, Fin 1) = (NaN, NaN, Fin 1) \<and>
   pixelToBearing radtan_tangential (Fin (- (1 / 262144)), Fin 0) vec = (True, (NaN, NaN, Fin 1)) \<and>
   \<not> unit_length (snd (pixelToBearing radtan_tangential (Fin (- (1 / 262144)), Fin 0) vec))"
proof -
  let ?y = "(Fin (- (1 / 262144)), Fin 0)"
  have y: "pixel_to_plane radtan_tangential ?y = ?y"
    by (simp add: pixel_to_plane_def radtan_tangential_def Camera_init_def)
  have r: "gn_residual radtan_tangential ?y ?y = (Fin (- (3 / 524288)), Fin 0)"
    by (simp add: gn_residual_def radtan_tangential_def Camera_init_def Let_def)
  have w: "within_tolerance radtan_tangential ?y ?y"
    by (simp add: within_tolerance_def r)
  have J: "snd (distort_J radtan_tangential ?y) = ((Fin (- 2), Fin 0), (Fin 0, Fin 0))"
    by (simp add: radtan_tangential_def Camera_init_def Let_def)
  have u: "gn_update radtan_tangential ?y ?y = (NaN, NaN)"
    by (simp add: gn_update_def gn_residual_def radtan_tangential_def Camera_init_def Let_def
          inf_of_sign_def)
  have n: "normalized (NaN, NaN, Fin 1) = (NaN, NaN, Fin 1)"
    by (simp add: Let_def)
  have p: "pixelToBearing radtan_tangential ?y vec = (True, (NaN, NaN, Fin 1))"
    by (rule pixelToBearing_singular_step)
  have l: "\<not> unit_length (snd (pixelToBearing radtan_tangential ?y vec))"
    by (simp add: p del: pixelToBearing.simps)
  from y r w J u n p l show ?thesis by blast
qed

text \<open>
  C6. The specification lets an inverse mapping either return a unit bearing without NaN
  or fail without writing a bearing. The overload for a manifold point calls
  \<open>setFromVector\<close> whatever the inverse returned. With the equidistant model and no
  distortion coefficients the image of the plane lies within the radius \<open>pi / 2\<close>; the
  pixel \<open>(3, 0)\<close> is outside, the iterative inverse fails after its 100 iterations and
  leaves its output alone, and the manifold overload returns false with the point set from
  its uninitialised local. The second part is a success with NaN components: the
  tangential coefficient \<open>p2 = 2^17\<close> makes the Jacobian singular at the pixel
  \<open>(-2^-18, 0)\<close>, whose residual is within the tolerance.
\<close>

theorem pixelToBearing_nve_writes_on_failure:
  "pixelToBearing equidist_camera (Fin 3, Fin 0) vec = (False, vec) \<and>
   pixelToBearing_nve setFromVector undistortPoints equidist_camera (Fin 3, Fin 0) vec_uninit
     = (False, setFromVector vec_uninit) \<and>
   pixelToBearing radtan_tangential (Fin (- (1 / 262144)), Fin 0) vec = (True, (NaN, NaN, Fin 1)) \<and>
   pixelToBearing_nve setFromVector undistortPoints radtan_tangential (Fin (- (1 / 262144)), Fin 0)
       vec_uninit
     = (True, setFromVector (NaN, NaN, Fin 1))"
proof -
  have t: "type equidist_camera = EQUIDIST" "type radtan_tangential = RADTAN"
    by (simp_all add: equidist_camera_def radtan_tangential_def Camera_init_def)
  show ?thesis
    by (simp add: pixelToBearing_nve_def pixelToBearing_equidist_fails
          pixelToBearing_singular_step t
        del: pixelToBearing.simps pixelToBearingAnalytical.simps)
qed















text \<open>The inverse can also fail on the pixel of a bearing of positive depth: in scenario C
  the bearing \<open>(2, 0, 1)\<close> is projected on a pixel of NaN, whose residual is a NaN at every
  guess.\<close>

lemma within_tolerance_NaN: "\<not> within_tolerance cam (NaN, NaN) u"
proof -
  obtain a b where d: "fst (distort_J cam u) = (a, b)" by (cases "fst (distort_J cam u)")
  show ?thesis
    by (simp add: within_tolerance_def gn_residual_def d del: distort_J.simps)
qed

lemma round_trip_inverse_can_fail:
  "bearingToPixel scenario_C (Fin 2, Fin 0, Fin 1) c0 = (True, (NaN, NaN)) \<and>
   pixelToBearing scenario_C (NaN, NaN) vec0 = (False, vec0)"
proof -
  have f: "bearingToPixel scenario_C (Fin 2, Fin 0, Fin 1) c0 = (True, (NaN, NaN))"
    by (simp add: scenario_C_def Camera_init_def static_cast_float_def Let_def inf_of_sign_def)
  have y: "pixel_to_plane scenario_C (NaN, NaN) = (NaN, NaN)"
    by (simp add: pixel_to_plane_def scenario_C_def Camera_init_def)
  have "pixelToBearing scenario_C (NaN, NaN) vec0 = (False, vec0)"
    using pixelToBearing_iterates [of scenario_C "(NaN, NaN)" vec0 vec0]
    by (simp add: y within_tolerance_NaN del: pixelToBearing.simps)
  with f show ?thesis by simp
qed






end
